theory Spec2Isabelle
  imports Main
begin

section \<open>Python values, exceptions and results\<close>

text \<open>
  The plugin host is Python 2 code (\<^verbatim>\<open>sublime_plugin.py\<close>). A Python call either
  returns a value or raises; a raise is the value \<open>Raise e\<close> of the result type, so
  that every \<^verbatim>\<open>try\<close>/\<^verbatim>\<open>except\<close> of the source is a case distinction of the model.
\<close>

datatype exn =
    AttributeError
  | ValueError
  | TypeError
  | NameError
  | KeyError
  | ImportError
  | IOError
  | SyntaxError
  | UnicodeError
  | PluginError string

datatype 'a res = Ok 'a | Raise exn

text \<open>
  \<^verbatim>\<open>try: body / except: handler\<close> with a bare \<^verbatim>\<open>except\<close>: whatever the body raises
  is caught, and the handler runs in the state the body left behind. What the handler
  raises is not caught.
\<close>

definition try_except ::
  "('s \<Rightarrow> 'a res \<times> 's) \<Rightarrow> (exn \<Rightarrow> 's \<Rightarrow> 'a res \<times> 's) \<Rightarrow> 's \<Rightarrow> 'a res \<times> 's" where
  "try_except body handler s =
     (case body s of
        (Ok v, s') \<Rightarrow> (Ok v, s')
      | (Raise e, s') \<Rightarrow> handler e s')"

section \<open>The event channel (class \<^verbatim>\<open>__Event\<close>)\<close>

text \<open>
  A channel is its list \<^verbatim>\<open>self.__observers\<close>. An observer is arbitrary code: called
  with the arguments \<open>x\<close> while the channel holds the observers \<open>obs\<close>, it returns
  (\<open>None\<close>) or raises (\<open>Some e\<close>), and it may have subscribed or unsubscribed
  observers on the channel meanwhile; \<open>beh ob x obs\<close> is that outcome together with
  the list the call leaves behind. \<^verbatim>\<open>traceback.print_exc()\<close> writes to the error stream
  and raises when the stream does; \<open>report e\<close> is \<open>None\<close> when the traceback of \<open>e\<close>
  is printed and \<open>Some e'\<close> when printing it raises \<open>e'\<close>. The state of a fire call is
  the list of observers and the trace of the calls made and the tracebacks printed.
\<close>

datatype ('o, 'a) event = Invoked 'o 'a | Traceback exn

type_synonym ('o, 'a) behaviour = "'o \<Rightarrow> 'a \<Rightarrow> 'o list \<Rightarrow> exn option \<times> 'o list"

type_synonym reporter = "exn \<Rightarrow> exn option"

type_synonym ('o, 'a) firing = "'o list \<times> ('o, 'a) event list"

text \<open>\<^verbatim>\<open>observer(*args)\<close>\<close>

definition call_observer ::
  "('o, 'a) behaviour \<Rightarrow> 'o \<Rightarrow> 'a \<Rightarrow> ('o, 'a) firing \<Rightarrow> unit res \<times> ('o, 'a) firing" where
  "call_observer beh ob x st =
     (case beh ob x (fst st) of
        (None, obs') \<Rightarrow> (Ok (), (obs', snd st @ [Invoked ob x]))
      | (Some e, obs') \<Rightarrow> (Raise e, (obs', snd st @ [Invoked ob x])))"

text \<open>\<^verbatim>\<open>traceback.print_exc()\<close>\<close>

definition print_exc ::
  "reporter \<Rightarrow> exn \<Rightarrow> ('o, 'a) firing \<Rightarrow> unit res \<times> ('o, 'a) firing" where
  "print_exc report e st =
     (case report e of
        None \<Rightarrow> (Ok (), (fst st, snd st @ [Traceback e]))
      | Some e' \<Rightarrow> (Raise e', st))"

text \<open>
  \<^verbatim>\<open>__call__\<close>: \<^verbatim>\<open>for observer in self.__observers\<close> walks the list itself, not a
  copy: the iterator keeps an index, and each round reads the element at that index of
  the list as it is then, until the index reaches the length the list has then. Each
  call stands inside its own \<^verbatim>\<open>try\<close>/\<^verbatim>\<open>except\<close>; an exception that leaves the loop
  body ends the loop and reaches the caller. A loop that never ends is the value
  \<open>None\<close>.
\<close>

partial_function (option) fire_from ::
  "('o, 'a) behaviour \<Rightarrow> reporter \<Rightarrow> 'a \<Rightarrow> nat \<Rightarrow> ('o, 'a) firing
     \<Rightarrow> (unit res \<times> ('o, 'a) firing) option" where
  "fire_from beh report x i st =
     (if i < length (fst st)
      then (case try_except (call_observer beh (fst st ! i) x) (print_exc report) st of
              (Ok u, st') \<Rightarrow> fire_from beh report x (Suc i) st'
            | (Raise e, st') \<Rightarrow> Some (Raise e, st'))
      else Some (Ok (), st))"

definition fire ::
  "('o, 'a) behaviour \<Rightarrow> reporter \<Rightarrow> 'o list \<Rightarrow> 'a \<Rightarrow> ('o, 'a) event list
     \<Rightarrow> (unit res \<times> ('o, 'a) firing) option" where
  "fire beh report obs x tr = fire_from beh report x 0 (obs, tr)"

text \<open>\<^verbatim>\<open>__iadd__\<close>: \<^verbatim>\<open>self.__observers.append(observer)\<close>\<close>

definition iadd :: "'o list \<Rightarrow> 'o \<Rightarrow> 'o list" where
  "iadd obs ob = obs @ [ob]"

text \<open>
  \<^verbatim>\<open>list.remove(x)\<close>: deletes the first element equal to \<open>x\<close>, and raises
  \<open>ValueError\<close> when there is none.
\<close>

fun list_remove :: "'o \<Rightarrow> 'o list \<Rightarrow> 'o list res" where
  "list_remove x [] = Raise ValueError"
| "list_remove x (y # ys) =
     (if y = x then Ok ys
      else (case list_remove x ys of
              Ok zs \<Rightarrow> Ok (y # zs)
            | Raise e \<Rightarrow> Raise e))"

text \<open>\<^verbatim>\<open>__isub__\<close>: \<^verbatim>\<open>self.__observers.remove(observer)\<close>, nothing caught.\<close>

definition isub :: "'o list \<Rightarrow> 'o \<Rightarrow> 'o list res" where
  "isub obs ob = list_remove ob obs"

text \<open>The calls a trace holds, in order.\<close>

fun invoked_of :: "('o, 'a) event \<Rightarrow> ('o \<times> 'a) list" where
  "invoked_of (Invoked ob x) = [(ob, x)]"
| "invoked_of (Traceback e) = []"

definition invocations :: "('o, 'a) event list \<Rightarrow> ('o \<times> 'a) list" where
  "invocations tr = concat (map invoked_of tr)"

section \<open>Strings and paths\<close>

text \<open>\<^verbatim>\<open>s.split(sep)\<close> for a separator of one character: every occurrence splits.\<close>

fun str_split :: "char \<Rightarrow> string \<Rightarrow> string list" where
  "str_split sep [] = [[]]"
| "str_split sep (c # cs) =
     (if c = sep then [] # str_split sep cs
      else (case str_split sep cs of
              [] \<Rightarrow> [[c]]
            | w # ws \<Rightarrow> (c # w) # ws))"

text \<open>\<^verbatim>\<open>sep.join(words)\<close>\<close>

fun str_join :: "string \<Rightarrow> string list \<Rightarrow> string" where
  "str_join sep [] = []"
| "str_join sep [w] = w"
| "str_join sep (w # v # ws) = w @ sep @ str_join sep (v # ws)"

definition startswith :: "string \<Rightarrow> string \<Rightarrow> bool" where
  "startswith s pre = (take (length pre) s = pre)"

definition endswith :: "string \<Rightarrow> string \<Rightarrow> bool" where
  "endswith s suf = (length suf \<le> length s \<and> drop (length s - length suf) s = suf)"

text \<open>
  \<^verbatim>\<open>os.path.join(a, b)\<close> of \<^verbatim>\<open>posixpath\<close>: an absolute \<open>b\<close> replaces \<open>a\<close>; otherwise
  \<open>b\<close> is appended, after a slash unless \<open>a\<close> is empty or already ends in one.
\<close>

definition path_join :: "string \<Rightarrow> string \<Rightarrow> string" where
  "path_join a b =
     (if startswith b ''/'' then b
      else if a = [] \<or> endswith a ''/'' then a @ b
      else a @ ''/'' @ b)"

section \<open>The world the plugin host runs in\<close>

text \<open>
  The file system as \<^verbatim>\<open>os.path\<close> sees it: a path names a regular file, a directory, or
  nothing. \<^verbatim>\<open>os.path.exists\<close> does not tell the first two apart.
\<close>

datatype node = File | Dir

definition path_exists :: "(string \<Rightarrow> node option) \<Rightarrow> string \<Rightarrow> bool" where
  "path_exists fsys p = (fsys p \<noteq> None)"

text \<open>
  A Python object that can sit in an attribute of a listener instance: its identity,
  what its truth test (\<^verbatim>\<open>if toadd:\<close>) gives, a truth value or an exception raised by
  \<^verbatim>\<open>__nonzero__\<close> or \<^verbatim>\<open>__len__\<close>, and whether it can be called. A bound method is true
  and callable; the integer \<open>1\<close> is true and not callable.
\<close>

datatype pyobj = PyObj (oid: nat) (truth: "exn + bool") (callable: bool)

definition truthy :: "pyobj \<Rightarrow> bool" where
  "truthy ob = (truth ob = Inr True)"

text \<open>
  An instance is its attributes: each holds an object, or is a property whose read
  raises. \<^verbatim>\<open>getattr(inst, name, None)\<close> gives the default \<^verbatim>\<open>None\<close> for a missing
  attribute and for a read that raises \<open>AttributeError\<close>; any other exception of the
  read reaches the caller.
\<close>

datatype attr = Holds pyobj | Unreadable exn

type_synonym pyinstance = "(string \<times> attr) list"

definition getattr :: "pyinstance \<Rightarrow> string \<Rightarrow> pyobj option res" where
  "getattr inst name =
     (case map_of inst name of
        None \<Rightarrow> Ok None
      | Some (Holds ob) \<Rightarrow> Ok (Some ob)
      | Some (Unreadable e) \<Rightarrow> if e = AttributeError then Ok None else Raise e)"

text \<open>
  A class whose metaclass is \<^verbatim>\<open>type\<close>, as far as \<^verbatim>\<open>reload_plugin\<close> looks at it: the
  four \<^verbatim>\<open>issubclass\<close> answers, and what calling it with no arguments does.
\<close>

record pyclass =
  class_id :: nat
  sub_EventListener :: bool
  sub_TextCommand :: bool
  sub_WindowCommand :: bool
  sub_ApplicationCommand :: bool
  construct :: "exn + pyinstance"

text \<open>
  A member of a module, as \<^verbatim>\<open>type(EventListener) != type(item[1])\<close> tells them apart:
  an object whose type is \<^verbatim>\<open>type\<close>, or anything else (functions, data, modules,
  old-style classes, classes of another metaclass).
\<close>

datatype member = TypeObject pyclass | NonType

text \<open>The wrappers \<^verbatim>\<open>reload_plugin\<close> hands to the host's \<^verbatim>\<open>sublime.register\<close>.\<close>

datatype glue =
    TextCommandGlue pyclass
  | WindowCommandGlue pyclass
  | ApplicationCommandGlue pyclass

text \<open>
  A module object: its name, \<^verbatim>\<open>__path__\<close> and \<^verbatim>\<open>__file__\<close> where set, and the list
  \<^verbatim>\<open>inspect.getmembers\<close> returns for it (pairs of name and value, sorted by name).
\<close>

record pymodule =
  mod_name :: string
  mod_path :: "string option"
  mod_file :: "string option"
  getmembers :: "(string \<times> member) list"

text \<open>
  What the code prints: the line of \<^verbatim>\<open>reload_plugin\<close>'s first statement, the line of
  its inner handler, and the traceback of its outer handler.
\<close>

datatype printed = Loading string | Skipping pyclass exn | PrintExc exn

text \<open>
  The process-wide state and its surroundings: \<^verbatim>\<open>sys.path\<close>, the file system, what
  executing a source file under a module name gives (\<open>source\<close>: an exception, or the
  members of the module), \<^verbatim>\<open>sys.modules\<close>, the two channels, the host's command table
  with the names whose registration the host refuses, the interpreter's own import for
  names the finder does not know, what has been printed, which prints raise
  (\<open>print_raises\<close>: formatting an exception whose \<^verbatim>\<open>__str__\<close> raises, or writing to a
  stream that raises), and the source files executed so far. Executing a source file
  and calling a constructor are taken to change nothing else of this state.
\<close>

record world =
  sys_path :: "string list"
  fs :: "string \<Rightarrow> node option"
  source :: "string \<Rightarrow> string \<Rightarrow> exn + (string \<times> member) list"
  sys_modules :: "string \<Rightarrow> pymodule option"
  on_load :: "pyobj list"
  on_new :: "pyobj list"
  commands :: "(string \<times> glue) list"
  register_raises :: "string \<Rightarrow> exn option"
  default_import :: "string \<Rightarrow> exn + pymodule"
  stdout :: "printed list"
  print_raises :: "printed \<Rightarrow> exn option"
  executed :: "(string \<times> string) list"

section \<open>The module resolver (function \<^verbatim>\<open>fn\<close>)\<close>

text \<open>\<^verbatim>\<open>paths = "/".join(fullname.split("."))\<close>\<close>

definition dotted_path :: "string \<Rightarrow> string" where
  "dotted_path fullname = str_join ''/'' (str_split CHR ''.'' fullname)"

text \<open>The loop over \<^verbatim>\<open>sys.path\<close>; falling out of it is \<^verbatim>\<open>return None\<close>.\<close>

fun fn_roots :: "(string \<Rightarrow> node option) \<Rightarrow> string list \<Rightarrow> string \<Rightarrow> string option" where
  "fn_roots fsys [] paths = None"
| "fn_roots fsys (p # ps) paths =
     (let f = path_join p paths in
      if path_exists fsys f then Some f
      else (let f' = f @ ''.py'' in
            if path_exists fsys f' then Some f'
            else fn_roots fsys ps paths))"

definition fn :: "world \<Rightarrow> string \<Rightarrow> string option" where
  "fn s fullname = fn_roots (fs s) (sys_path s) (dotted_path fullname)"

section \<open>The module loader (class \<^verbatim>\<open>__myfinder\<close>)\<close>

text \<open>
  \<^verbatim>\<open>imp.new_module(fullname)\<close>: an empty module; \<^verbatim>\<open>m.__path__ = f\<close> adds the
  attribute, which \<^verbatim>\<open>inspect.getmembers\<close> lists last.
\<close>

definition new_module :: "string \<Rightarrow> pymodule" where
  "new_module fullname =
     \<lparr>mod_name = fullname, mod_path = None, mod_file = None,
      getmembers = [(''__doc__'', NonType), (''__name__'', NonType), (''__package__'', NonType)]\<rparr>"

definition set_path :: "pymodule \<Rightarrow> string \<Rightarrow> pymodule" where
  "set_path m f = m\<lparr>mod_path := Some f, getmembers := getmembers m @ [(''__path__'', NonType)]\<rparr>"

text \<open>
  \<^verbatim>\<open>imp.load_source(fullname, f)\<close>: executes the file as the module \<open>fullname\<close>. When
  the execution raises, the exception reaches the caller and \<^verbatim>\<open>sys.modules\<close> is as
  before; otherwise the module is in \<^verbatim>\<open>sys.modules\<close> and is returned.
\<close>

definition load_source :: "string \<Rightarrow> string \<Rightarrow> world \<Rightarrow> pymodule res \<times> world" where
  "load_source fullname f s =
     (let s' = s\<lparr>executed := executed s @ [(fullname, f)]\<rparr> in
      case source s fullname f of
        Inl e \<Rightarrow> (Raise e, s')
      | Inr ms \<Rightarrow>
          (let m = \<lparr>mod_name = fullname, mod_path = None, mod_file = Some f, getmembers = ms\<rparr>
           in (Ok m, s'\<lparr>sys_modules := (sys_modules s')(fullname \<mapsto> m)\<rparr>)))"

text \<open>
  \<^verbatim>\<open>myloader.load_module\<close>. \<^verbatim>\<open>f.endswith(".py")\<close> on the \<^verbatim>\<open>None\<close> that \<^verbatim>\<open>fn\<close>
  returns for an unknown name raises \<open>AttributeError\<close>.
\<close>

definition load_module :: "string \<Rightarrow> world \<Rightarrow> pymodule res \<times> world" where
  "load_module fullname s =
     (case sys_modules s fullname of
        Some cached \<Rightarrow> (Ok cached, s)
      | None \<Rightarrow>
          (case fn s fullname of
             None \<Rightarrow> (Raise AttributeError, s)
           | Some f \<Rightarrow>
               if \<not> endswith f ''.py''
               then (let m = set_path (new_module fullname) f
                     in (Ok m, s\<lparr>sys_modules := (sys_modules s)(fullname \<mapsto> m)\<rparr>))
               else load_source fullname f s))"

datatype loader = myloader

text \<open>\<^verbatim>\<open>find_module\<close>: a loader when \<^verbatim>\<open>fn\<close> finds the name, else \<^verbatim>\<open>None\<close>.\<close>

definition find_module :: "world \<Rightarrow> string \<Rightarrow> loader option" where
  "find_module s fullname = (if fn s fullname \<noteq> None then Some myloader else None)"

text \<open>
  \<^verbatim>\<open>importlib.import_module(name)\<close> with \<^verbatim>\<open>sys.meta_path = [__myfinder()]\<close> imports
  the packages the dotted name runs through, outermost first, and then returns
  \<^verbatim>\<open>sys.modules[name]\<close>. The dotted names to import, for \<^verbatim>\<open>a.b.c\<close>: \<^verbatim>\<open>a\<close>,
  \<^verbatim>\<open>a.b\<close>, \<^verbatim>\<open>a.b.c\<close>.
\<close>

fun dotted_prefixes :: "string option \<Rightarrow> string list \<Rightarrow> string list" where
  "dotted_prefixes outer [] = []"
| "dotted_prefixes outer (seg # segs) =
     (let full = (case outer of None \<Rightarrow> seg | Some pkg \<Rightarrow> pkg @ ''.'' @ seg)
      in full # dotted_prefixes (Some full) segs)"

text \<open>
  One step of the import: a module in \<^verbatim>\<open>sys.modules\<close> is taken as it is. Otherwise a
  submodule of a module without \<^verbatim>\<open>__path__\<close> is an \<open>ImportError\<close>; otherwise the finder
  is asked and its loader loads the module; a name the finder does not know goes to
  the interpreter's own search.
\<close>

definition import_submodule ::
  "pymodule option \<Rightarrow> string \<Rightarrow> world \<Rightarrow> pymodule res \<times> world" where
  "import_submodule parent fullname s =
     (case sys_modules s fullname of
        Some cached \<Rightarrow> (Ok cached, s)
      | None \<Rightarrow>
          if (case parent of None \<Rightarrow> False | Some pkg \<Rightarrow> mod_path pkg = None)
          then (Raise ImportError, s)
          else (case find_module s fullname of
                  Some ld \<Rightarrow> load_module fullname s
                | None \<Rightarrow>
                    (case default_import s fullname of
                       Inl e \<Rightarrow> (Raise e, s)
                     | Inr m \<Rightarrow> (Ok m, s\<lparr>sys_modules := (sys_modules s)(fullname \<mapsto> m)\<rparr>))))"

fun import_chain ::
  "pymodule option \<Rightarrow> string list \<Rightarrow> world \<Rightarrow> unit res \<times> world" where
  "import_chain parent [] s = (Ok (), s)"
| "import_chain parent (fullname # rest) s =
     (case import_submodule parent fullname s of
        (Raise e, s') \<Rightarrow> (Raise e, s')
      | (Ok m, s') \<Rightarrow> import_chain (Some m) rest s')"

definition import_module :: "string \<Rightarrow> world \<Rightarrow> pymodule res \<times> world" where
  "import_module name s =
     (case import_chain None (dotted_prefixes None (str_split CHR ''.'' name)) s of
        (Raise e, s') \<Rightarrow> (Raise e, s')
      | (Ok u, s') \<Rightarrow>
          (case sys_modules s' name of
             None \<Rightarrow> (Raise KeyError, s')
           | Some m \<Rightarrow> (Ok m, s')))"

section \<open>The registrar (function \<^verbatim>\<open>reload_plugin\<close>)\<close>

text \<open>
  A \<^verbatim>\<open>print\<close> statement or \<^verbatim>\<open>traceback.print_exc()\<close>: the line is printed, unless
  formatting or writing it raises.
\<close>

definition print_line :: "printed \<Rightarrow> world \<Rightarrow> unit res \<times> world" where
  "print_line p s =
     (case print_raises s p of
        Some e \<Rightarrow> (Raise e, s)
      | None \<Rightarrow> (Ok (), s\<lparr>stdout := stdout s @ [p]\<rparr>))"

text \<open>
  \<^verbatim>\<open>sublime.register(name, glue)\<close>, the host's side: the command table grows by one
  entry, unless the host raises.
\<close>

definition register :: "string \<Rightarrow> glue \<Rightarrow> world \<Rightarrow> unit res \<times> world" where
  "register name g s =
     (case register_raises s name of
        Some e \<Rightarrow> (Raise e, s)
      | None \<Rightarrow> (Ok (), s\<lparr>commands := commands s @ [(name, g)]\<rparr>))"

text \<open>
  The local function \<^verbatim>\<open>add(inst, listname)\<close>: \<^verbatim>\<open>getattr\<close> with the default
  \<^verbatim>\<open>None\<close>, the truth test \<^verbatim>\<open>if toadd:\<close>, and \<^verbatim>\<open>l += toadd\<close> on the channel that
  \<^verbatim>\<open>eval(listname)\<close> finds; any other name would be a \<open>NameError\<close>.
\<close>

definition add :: "pyinstance \<Rightarrow> string \<Rightarrow> world \<Rightarrow> unit res \<times> world" where
  "add inst listname s =
     (case getattr inst listname of
        Raise e \<Rightarrow> (Raise e, s)
      | Ok None \<Rightarrow> (Ok (), s)
      | Ok (Some toadd) \<Rightarrow>
          (case truth toadd of
             Inl e \<Rightarrow> (Raise e, s)
           | Inr False \<Rightarrow> (Ok (), s)
           | Inr True \<Rightarrow>
               if listname = ''on_load'' then (Ok (), s\<lparr>on_load := iadd (on_load s) toadd\<rparr>)
               else if listname = ''on_new'' then (Ok (), s\<lparr>on_new := iadd (on_new s) toadd\<rparr>)
               else (Raise NameError, s)))"

text \<open>
  The listener branch: \<^verbatim>\<open>inst = item[1]()\<close>, \<^verbatim>\<open>add(inst, "on_load")\<close>,
  \<^verbatim>\<open>add(inst, "on_new")\<close>.
\<close>

definition wire_listener :: "pyclass \<Rightarrow> world \<Rightarrow> unit res \<times> world" where
  "wire_listener c s =
     (case construct c of
        Inl e \<Rightarrow> (Raise e, s)
      | Inr inst \<Rightarrow>
          (case add inst ''on_load'' s of
             (Raise e, s') \<Rightarrow> (Raise e, s')
           | (Ok u, s') \<Rightarrow> add inst ''on_new'' s'))"

text \<open>The body of the inner \<^verbatim>\<open>try\<close>: the \<^verbatim>\<open>if\<close>/\<^verbatim>\<open>elif\<close> chain, in its order.\<close>

definition register_member :: "string \<Rightarrow> pyclass \<Rightarrow> world \<Rightarrow> unit res \<times> world" where
  "register_member name c s =
     (if sub_EventListener c then wire_listener c s
      else if sub_TextCommand c then register name (TextCommandGlue c) s
      else if sub_WindowCommand c then register name (WindowCommandGlue c) s
      else if sub_ApplicationCommand c then register name (ApplicationCommandGlue c) s
      else (Ok (), s))"

text \<open>
  The handler of the inner \<^verbatim>\<open>try\<close>:
  \<^verbatim>\<open>print "Skipping registering %s: %s" % (item[1], sys.exc_info()[1])\<close>. It stands
  inside the outer \<^verbatim>\<open>try\<close>: when formatting the exception or printing raises, the
  exception leaves the loop.
\<close>

definition skip :: "pyclass \<Rightarrow> exn \<Rightarrow> world \<Rightarrow> unit res \<times> world" where
  "skip c e s = print_line (Skipping c e) s"

text \<open>
  The loop over \<^verbatim>\<open>inspect.getmembers(module)\<close>: a member that is not a type object is
  passed over (\<^verbatim>\<open>continue\<close>), a type object goes through the inner
  \<^verbatim>\<open>try\<close>/\<^verbatim>\<open>except\<close>.
\<close>

fun for_members :: "(string \<times> member) list \<Rightarrow> world \<Rightarrow> unit res \<times> world" where
  "for_members [] s = (Ok (), s)"
| "for_members ((name, NonType) # items) s = for_members items s"
| "for_members ((name, TypeObject c) # items) s =
     (case try_except (register_member name c) (skip c) s of
        (Ok u, s') \<Rightarrow> for_members items s'
      | (Raise e, s') \<Rightarrow> (Raise e, s'))"

text \<open>
  \<^verbatim>\<open>reload_plugin(module)\<close>. \<^verbatim>\<open>print "Loading plugin %s" % module\<close> stands before
  the outer \<^verbatim>\<open>try\<close>, so what it raises reaches the caller; the import and the loop
  stand inside the \<^verbatim>\<open>try\<close>, and its handler is \<^verbatim>\<open>traceback.print_exc()\<close>.
  \<open>importer\<close> is \<^verbatim>\<open>importlib.import_module\<close>.
\<close>

definition reload_plugin ::
  "(string \<Rightarrow> world \<Rightarrow> pymodule res \<times> world) \<Rightarrow> string \<Rightarrow> world \<Rightarrow> unit res \<times> world" where
  "reload_plugin importer name s =
     (case print_line (Loading name) s of
        (Raise e, s0) \<Rightarrow> (Raise e, s0)
      | (Ok u, s0) \<Rightarrow>
          try_except
            (\<lambda>s0. case importer name s0 of
                     (Raise e, s1) \<Rightarrow> (Raise e, s1)
                   | (Ok m, s1) \<Rightarrow> for_members (getmembers m) s1)
            (\<lambda>e s1. print_line (PrintExc e) s1)
            s0)"

text \<open>
  Calling an object of a channel: one that is not callable raises \<open>TypeError\<close>, a
  callable one does what \<open>run\<close> says for its identity; neither touches the channel.
\<close>

definition call_outcome :: "(nat \<Rightarrow> 'a \<Rightarrow> exn option) \<Rightarrow> (pyobj, 'a) behaviour" where
  "call_outcome run ob x obs = (if callable ob then run (oid ob) x else Some TypeError, obs)"

section \<open>The specification's wording, for comparison\<close>

text \<open>
  The specification classifies an exported type into at most one kind: the first of
  EventListener, TextCommand, WindowCommand, ApplicationCommand that the type is a
  subtype of. \<open>classify_spec\<close> is that sentence; the source has no such function,
  only the \<^verbatim>\<open>if\<close>/\<^verbatim>\<open>elif\<close> chain of \<open>register_member\<close>.
\<close>

datatype kind = EventListener | TextCommand | WindowCommand | ApplicationCommand

fun satisfies :: "pyclass \<Rightarrow> kind \<Rightarrow> bool" where
  "satisfies c EventListener = sub_EventListener c"
| "satisfies c TextCommand = sub_TextCommand c"
| "satisfies c WindowCommand = sub_WindowCommand c"
| "satisfies c ApplicationCommand = sub_ApplicationCommand c"

definition classify_spec :: "pyclass \<Rightarrow> kind option" where
  "classify_spec c = List.find (satisfies c) [EventListener, TextCommand, WindowCommand, ApplicationCommand]"

text \<open>
  The specification's resolver: for each root in order, a namespace hit when
  \<open>root/segments\<close> exists as a directory, otherwise a source hit when
  \<open>root/segments\<close> plus the source extension exists.
\<close>

datatype hit = NamespaceHit string | SourceHit string

fun resolve_spec :: "(string \<Rightarrow> node option) \<Rightarrow> string list \<Rightarrow> string \<Rightarrow> hit option" where
  "resolve_spec fsys [] segs = None"
| "resolve_spec fsys (root # roots) segs =
     (if fsys (path_join root segs) = Some Dir then Some (NamespaceHit (path_join root segs))
      else if path_exists fsys (path_join root segs @ ''.py'')
      then Some (SourceHit (path_join root segs @ ''.py''))
      else resolve_spec fsys roots segs)"

section \<open>Notions the properties are stated with\<close>

text \<open>
  What one observer adds to the trace of a fire call over the observers \<open>obs\<close>: its
  call, and the traceback when it raises.
\<close>

definition delivery ::
  "('o, 'a) behaviour \<Rightarrow> 'a \<Rightarrow> 'o list \<Rightarrow> 'o \<Rightarrow> ('o, 'a) event list" where
  "delivery beh x obs ob =
     Invoked ob x # (case fst (beh ob x obs) of None \<Rightarrow> [] | Some e \<Rightarrow> [Traceback e])"

text \<open>
  A fire call over the observers \<open>obs\<close> is undisturbed when no observer of the channel
  subscribes or unsubscribes on it while it is called, and the traceback of every
  observer that raises gets printed.
\<close>

definition undisturbed ::
  "('o, 'a) behaviour \<Rightarrow> reporter \<Rightarrow> 'a \<Rightarrow> 'o list \<Rightarrow> bool" where
  "undisturbed beh report x obs =
     (\<forall>ob \<in> set obs.
        snd (beh ob x obs) = obs
      \<and> (case fst (beh ob x obs) of None \<Rightarrow> True | Some e \<Rightarrow> report e = None))"

text \<open>
  The paths \<^verbatim>\<open>fn\<close> may return, in the order it tests them: for each root the joined
  path, then the joined path with \<^verbatim>\<open>.py\<close>.
\<close>

definition candidates :: "string list \<Rightarrow> string \<Rightarrow> string list" where
  "candidates roots paths = concat (map (\<lambda>p. [path_join p paths, path_join p paths @ ''.py'']) roots)"

text \<open>
  The module object a first load produces for the location \<open>f\<close>: a source module
  with the members \<open>ms\<close> that executing \<open>f\<close> defined, or a namespace module with
  \<^verbatim>\<open>__path__ = f\<close>.
\<close>

definition loaded :: "string \<Rightarrow> string \<Rightarrow> (string \<times> member) list \<Rightarrow> pymodule" where
  "loaded fullname f ms =
     (if endswith f ''.py''
      then \<lparr>mod_name = fullname, mod_path = None, mod_file = Some f, getmembers = ms\<rparr>
      else set_path (new_module fullname) f)"

text \<open>
  The wrapper the \<^verbatim>\<open>elif\<close> branches of \<open>register_member\<close> build for a class that
  does not take the listener branch.
\<close>

definition command_glue :: "pyclass \<Rightarrow> glue option" where
  "command_glue c =
     (if sub_EventListener c then None
      else if sub_TextCommand c then Some (TextCommandGlue c)
      else if sub_WindowCommand c then Some (WindowCommandGlue c)
      else if sub_ApplicationCommand c then Some (ApplicationCommandGlue c)
      else None)"

text \<open>
  What \<open>add\<close> appends for one hook name: the attribute, when the instance has it, it
  can be read and its truth value is true. And what \<open>add\<close> raises for that name: the
  exception of the read, unless it is an \<open>AttributeError\<close>, or of the truth test.
\<close>

definition hooked :: "pyinstance \<Rightarrow> string \<Rightarrow> pyobj list" where
  "hooked inst name =
     (case getattr inst name of
        Ok (Some v) \<Rightarrow> if truthy v then [v] else []
      | Ok None \<Rightarrow> []
      | Raise e \<Rightarrow> [])"

definition add_raises :: "pyinstance \<Rightarrow> string \<Rightarrow> exn option" where
  "add_raises inst name =
     (case getattr inst name of
        Raise e \<Rightarrow> Some e
      | Ok None \<Rightarrow> None
      | Ok (Some v) \<Rightarrow> (case truth v of Inl e \<Rightarrow> Some e | Inr b \<Rightarrow> None))"

text \<open>The state after one pass of the loop body, handler included.\<close>

definition member_step :: "string \<Rightarrow> pyclass \<Rightarrow> world \<Rightarrow> world" where
  "member_step name c s = snd (try_except (register_member name c) (skip c) s)"

section \<open>Example plugins and worlds\<close>

text \<open>
  A freshly started host with one search root and nothing on disk, nothing loaded, no
  observers and no commands, whose prints all succeed; an empty file system and a
  directory of sources that cannot be read.
\<close>

definition bare_world :: world where
  "bare_world =
     \<lparr>sys_path = [''/plugins''], fs = (\<lambda>p. None), source = (\<lambda>n f. Inl IOError),
      sys_modules = (\<lambda>n. None), on_load = [], on_new = [], commands = [],
      register_raises = (\<lambda>n. None), default_import = (\<lambda>n. Inl ImportError),
      stdout = [], print_raises = (\<lambda>p. None), executed = []\<rparr>"

definition no_files :: "string \<Rightarrow> node option" where
  "no_files p = None"

definition no_source :: "string \<Rightarrow> string \<Rightarrow> exn + (string \<times> member) list" where
  "no_source n f = Inl IOError"

text \<open>
  Observers named by numbers. \<open>steady\<close>: all return. \<open>flaky\<close>: the second raises.
  \<open>leaver\<close>: the first unsubscribes itself (\<^verbatim>\<open>channel -= me\<close>) and returns.
  \<open>quitter\<close>: the first unsubscribes itself and then raises. An error stream that
  prints every traceback, and one that raises on every write. Callables that all
  return.
\<close>

definition steady :: "(nat, string) behaviour" where
  "steady ob x obs = (None, obs)"

definition flaky :: "(nat, string) behaviour" where
  "flaky ob x obs = (if ob = 2 then Some ValueError else None, obs)"

definition leaver :: "(nat, string) behaviour" where
  "leaver ob x obs =
     (None, if ob = 1 then (case isub obs 1 of Ok rest \<Rightarrow> rest | Raise e \<Rightarrow> obs) else obs)"

definition quitter :: "(nat, string) behaviour" where
  "quitter ob x obs =
     (if ob = 1
      then (Some ValueError, case isub obs 1 of Ok rest \<Rightarrow> rest | Raise e \<Rightarrow> obs)
      else (None, obs))"

definition prints :: reporter where
  "prints e = None"

definition jammed :: reporter where
  "jammed e = Some IOError"

definition quiet :: "nat \<Rightarrow> string \<Rightarrow> exn option" where
  "quiet i x = None"

text \<open>
  Classes a plugin may export: one that subclasses all four base classes, a listener
  whose constructor raises, a text command (its constructor needs a view), a listener
  that defines only \<^verbatim>\<open>on_new\<close>, a listener whose \<^verbatim>\<open>on_load\<close> attribute is the
  integer \<open>1\<close> (true, not callable) and whose \<^verbatim>\<open>on_new\<close> attribute is a callable
  object that is false, and a listener with an \<^verbatim>\<open>on_load\<close> method whose \<^verbatim>\<open>on_new\<close>
  is a property that raises.
\<close>

definition hybrid :: pyclass where
  "hybrid =
     \<lparr>class_id = 1, sub_EventListener = True, sub_TextCommand = True,
      sub_WindowCommand = True, sub_ApplicationCommand = True,
      construct = Inr [(''on_new'', Holds (PyObj 10 (Inr True) True))]\<rparr>"

definition failing_listener :: pyclass where
  "failing_listener =
     \<lparr>class_id = 2, sub_EventListener = True, sub_TextCommand = False,
      sub_WindowCommand = False, sub_ApplicationCommand = False,
      construct = Inl (PluginError ''boom'')\<rparr>"

definition text_command :: pyclass where
  "text_command =
     \<lparr>class_id = 3, sub_EventListener = False, sub_TextCommand = True,
      sub_WindowCommand = False, sub_ApplicationCommand = False,
      construct = Inl TypeError\<rparr>"

definition new_listener :: pyclass where
  "new_listener =
     \<lparr>class_id = 4, sub_EventListener = True, sub_TextCommand = False,
      sub_WindowCommand = False, sub_ApplicationCommand = False,
      construct = Inr [(''on_new'', Holds (PyObj 11 (Inr True) True))]\<rparr>"

definition odd_listener :: pyclass where
  "odd_listener =
     \<lparr>class_id = 5, sub_EventListener = True, sub_TextCommand = False,
      sub_WindowCommand = False, sub_ApplicationCommand = False,
      construct = Inr [(''on_load'', Holds (PyObj 12 (Inr True) False)),
                       (''on_new'', Holds (PyObj 13 (Inr False) True))]\<rparr>"


definition plugin_members :: "(string \<times> member) list" where
  "plugin_members =
     [(''Broken'', TypeObject failing_listener),
      (''Insert'', TypeObject text_command),
      (''Watcher'', TypeObject new_listener),
      (''helper'', NonType)]"


text \<open>
  Worlds: the directory \<^verbatim>\<open>/plugins/foo\<close> with the source file \<^verbatim>\<open>bar.py\<close> in it,
  before and after \<^verbatim>\<open>foo.bar\<close> is loaded; a regular file \<^verbatim>\<open>/plugins/foo\<close>; a
  source file with a syntax error; a source file that raises at module scope; the
  source file of the module that exports \<open>odd_listener\<close>; the source file of the module
  with the members \<open>plugin_members\<close>, in a host where formatting a skip line raises;
  a host whose output stream raises on every write; and a host whose error stream
  does.
\<close>

definition plugins_world :: world where
  "plugins_world =
     bare_world
       \<lparr>fs := [''/plugins/foo'' \<mapsto> Dir, ''/plugins/foo/bar.py'' \<mapsto> File],
        source := (\<lambda>n f. if f = ''/plugins/foo/bar.py''
                           then Inr [(''Insert'', TypeObject text_command)]
                           else Inl IOError)\<rparr>"

definition bar_module :: pymodule where
  "bar_module =
     \<lparr>mod_name = ''foo.bar'', mod_path = None, mod_file = Some ''/plugins/foo/bar.py'',
      getmembers = [(''Insert'', TypeObject text_command)]\<rparr>"

definition bar_loaded :: world where
  "bar_loaded =
     plugins_world
       \<lparr>sys_modules := [''foo.bar'' \<mapsto> bar_module],
        executed := [(''foo.bar'', ''/plugins/foo/bar.py'')]\<rparr>"

definition file_world :: world where
  "file_world = bare_world\<lparr>fs := [''/plugins/foo'' \<mapsto> File]\<rparr>"

definition broken_world :: world where
  "broken_world =
     bare_world
       \<lparr>fs := [''/plugins/broken.py'' \<mapsto> File], source := (\<lambda>n f. Inl SyntaxError)\<rparr>"

definition crash_world :: world where
  "crash_world =
     bare_world
       \<lparr>fs := [''/plugins/crash.py'' \<mapsto> File],
        source := (\<lambda>n f. Inl (PluginError ''raised at module scope''))\<rparr>"

definition oddhooks_world :: world where
  "oddhooks_world =
     bare_world
       \<lparr>fs := [''/plugins/oddhooks.py'' \<mapsto> File],
        source := (\<lambda>n f. if n = ''oddhooks'' \<and> f = ''/plugins/oddhooks.py''
                           then Inr [(''OddHooks'', TypeObject odd_listener)]
                           else Inl IOError)\<rparr>"

definition garbled_world :: world where
  "garbled_world =
     bare_world
       \<lparr>fs := [''/plugins/myplugin.py'' \<mapsto> File],
        source := (\<lambda>n f. if n = ''myplugin'' \<and> f = ''/plugins/myplugin.py''
                           then Inr plugin_members
                           else Inl IOError),
        print_raises := (\<lambda>p. case p of Skipping c e \<Rightarrow> Some UnicodeError
                                       | Loading n \<Rightarrow> None
                                       | PrintExc e \<Rightarrow> None)\<rparr>"

definition stdout_closed_world :: world where
  "stdout_closed_world =
     oddhooks_world
       \<lparr>print_raises := (\<lambda>p. case p of PrintExc e \<Rightarrow> None
                                       | Loading n \<Rightarrow> Some IOError
                                       | Skipping c e \<Rightarrow> Some IOError)\<rparr>"

definition stderr_closed_world :: world where
  "stderr_closed_world =
     bare_world
       \<lparr>print_raises := (\<lambda>p. case p of PrintExc e \<Rightarrow> Some IOError
                                       | Loading n \<Rightarrow> None
                                       | Skipping c e \<Rightarrow> None)\<rparr>"

section \<open>Properties of the event channel\<close>

lemma call_undisturbed:
  assumes "undisturbed beh report x obs" and "ob \<in> set obs"
  shows "try_except (call_observer beh ob x) (print_exc report) (obs, tr) =
         (Ok (), (obs, tr @ delivery beh x obs ob))"
proof -
  obtain out obs' where b: "beh ob x obs = (out, obs')" by (cases "beh ob x obs")
  from assms b have same: "obs' = obs"
    and rep: "case out of None \<Rightarrow> True | Some e \<Rightarrow> report e = None"
    by (auto simp: undisturbed_def)
  show ?thesis
  proof (cases out)
    case None
    with b same show ?thesis
      by (simp add: try_except_def call_observer_def delivery_def)
  next
    case (Some e)
    with rep have "report e = None" by simp
    with b same Some show ?thesis
      by (simp add: try_except_def call_observer_def print_exc_def delivery_def)
  qed
qed

lemma fire_from_undisturbed:
  assumes "undisturbed beh report x obs"
  shows "fire_from beh report x i (obs, tr) =
         Some (Ok (), (obs, tr @ concat (map (delivery beh x obs) (drop i obs))))"
proof (induction "length obs - i" arbitrary: i tr)
  case 0
  then have "\<not> i < length obs" by simp
  then show ?case by (subst fire_from.simps) simp
next
  case (Suc n)
  then have lt: "i < length obs" and n: "n = length obs - Suc i" by simp_all
  then have mem: "obs ! i \<in> set obs" by simp
  have dr: "drop i obs = obs ! i # drop (Suc i) obs"
    using lt by (simp add: Cons_nth_drop_Suc)
  show ?case
    by (subst fire_from.simps)
       (simp add: lt call_undisturbed [OF assms mem] Suc.hyps(1) [OF n] dr)
qed

lemma fire_undisturbed:
  "undisturbed beh report x obs \<Longrightarrow>
   fire beh report obs x tr = Some (Ok (), (obs, tr @ concat (map (delivery beh x obs) obs)))"
  by (simp add: fire_def fire_from_undisturbed)

lemma invocations_append: "invocations (tr @ tr') = invocations tr @ invocations tr'"
  by (simp add: invocations_def)

lemma invocations_delivery:
  "invocations (concat (map (delivery beh x obs) olds)) = map (\<lambda>ob. (ob, x)) olds"
  by (induction olds) (auto simp: invocations_def delivery_def split: option.splits)

lemma foldl_iadd: "foldl iadd obs new = obs @ new"
  by (induction new arbitrary: obs) (simp_all add: iadd_def)

lemma fire_from_raise:
  assumes "fire_from beh report x i st = Some y"
  shows "fst y = Ok () \<or> (\<exists>e e'. fst y = Raise e' \<and> report e = Some e')"
proof (rule fire_from.raw_induct
    [where P = "\<lambda>beh report x i st y.
                  fst y = Ok () \<or> (\<exists>e e'. fst y = Raise e' \<and> report e = Some e')"
       and xa = "((((beh, report), x), i), st)" and y = y, unfolded prod.case])
  show "fire_from beh report x i st = Some y" by (rule assms)
next
  fix rec :: "('a, 'b) behaviour \<Rightarrow> reporter \<Rightarrow> 'b \<Rightarrow> nat \<Rightarrow> ('a, 'b) firing
                \<Rightarrow> (unit res \<times> ('a, 'b) firing) option"
    and beh :: "('a, 'b) behaviour" and report :: reporter and x i st y
  assume IH: "\<And>beh report x i st y. rec beh report x i st = Some y \<Longrightarrow>
                fst y = Ok () \<or> (\<exists>e e'. fst y = Raise e' \<and> report e = Some e')"
    and body: "(if i < length (fst st)
         then case try_except (call_observer beh (fst st ! i) x) (print_exc report) st of
                (Ok u, st') \<Rightarrow> rec beh report x (Suc i) st'
              | (Raise e, st') \<Rightarrow> Some (Raise e, st')
         else Some (Ok (), st)) = Some y"
  show "fst y = Ok () \<or> (\<exists>e e'. fst y = Raise e' \<and> report e = Some e')"
  proof (cases "i < length (fst st)")
    case False
    with body show ?thesis by auto
  next
    case True
    obtain r1 st1 where step:
      "try_except (call_observer beh (fst st ! i) x) (print_exc report) st = (r1, st1)"
      by (cases "try_except (call_observer beh (fst st ! i) x) (print_exc report) st")
    show ?thesis
    proof (cases r1)
      case (Ok u)
      with body True step have "rec beh report x (Suc i) st1 = Some y" by simp
      then show ?thesis by (rule IH)
    next
      case (Raise e1)
      with body True step have r: "fst y = Raise e1" by auto
      from step Raise have "\<exists>e. report e = Some e1"
        by (auto simp: try_except_def call_observer_def print_exc_def
            split: prod.splits option.splits)
      with r show ?thesis by blast
    qed
  qed
qed


text \<open>
  C3, as the code has it. After \<open>subscribe(o1), ..., subscribe(on)\<close> on a channel, an
  undisturbed \<open>fire(x)\<close> (no observer subscribes or unsubscribes on the channel
  meanwhile, and every traceback gets printed) returns and has called the observers of
  the channel in subscription order, each subscription once, with the argument \<open>x\<close>:
  the calls made are exactly the earlier subscriptions followed by \<open>o1, ..., on\<close>, so
  an observer subscribed twice is called twice.
\<close>

theorem fire_calls_each_subscription_in_order:
  assumes "undisturbed beh report x (foldl iadd obs new)"
  shows "fire beh report (foldl iadd obs new) x [] =
           Some (Ok (), (obs @ new, concat (map (delivery beh x (obs @ new)) (obs @ new))))
       \<and> invocations (concat (map (delivery beh x (obs @ new)) (obs @ new))) =
           map (\<lambda>ob. (ob, x)) (obs @ new)"
proof -
  from assms have u: "undisturbed beh report x (obs @ new)" by (simp add: foldl_iadd)
  have "fire beh report (obs @ new) x [] =
        Some (Ok (), (obs @ new, [] @ concat (map (delivery beh x (obs @ new)) (obs @ new))))"
    using u by (rule fire_undisturbed)
  moreover have "invocations (concat (map (delivery beh x (obs @ new)) (obs @ new))) =
           map (\<lambda>ob. (ob, x)) (obs @ new)"
    by (rule invocations_delivery)
  ultimately show ?thesis by (simp add: foldl_iadd del: map_append)
qed

text \<open>C3 at a channel to which the first observer is subscribed a second time.\<close>

theorem fire_calls_each_subscription_in_order_witness:
  "undisturbed steady prints ''doc'' (foldl iadd [1] [2, 1])
 \<and> fire steady prints (foldl iadd [1] [2, 1]) ''doc'' [] =
     Some (Ok (), ([1, 2, 1], [Invoked 1 ''doc'', Invoked 2 ''doc'', Invoked 1 ''doc'']))
 \<and> invocations [Invoked (1::nat) ''doc'', Invoked 2 ''doc'', Invoked 1 ''doc''] =
     [(1, ''doc''), (2, ''doc''), (1, ''doc'')]"
proof -
  have u: "undisturbed steady prints ''doc'' (foldl iadd [1] [2, 1])"
    by (simp add: undisturbed_def steady_def)
  from fire_calls_each_subscription_in_order [OF u] u show ?thesis
    by (simp add: iadd_def delivery_def steady_def invocations_def)
qed

text \<open>
  C3 as stated fails. An observer that unsubscribes itself while it is called shortens
  the list under the loop, and the observer subscribed after it is never called; and
  when printing the traceback of a raising observer raises, the loop ends before the
  observers after it.
\<close>

theorem disturbed_fire_skips_counterexample:
  "fire leaver prints (foldl iadd [] [1, 2, 3]) ''doc'' [] =
     Some (Ok (), ([2, 3], [Invoked 1 ''doc'', Invoked 3 ''doc'']))
 \<and> fire flaky jammed (foldl iadd [] [1, 2, 3]) ''doc'' [] =
     Some (Raise IOError, ([1, 2, 3], [Invoked 1 ''doc'', Invoked 2 ''doc'']))"
  by (simp add: fire_def fire_from.simps try_except_def call_observer_def print_exc_def
      leaver_def flaky_def prints_def jammed_def isub_def iadd_def)

text \<open>
  C4, as the code has it. When an observer raises during an undisturbed \<open>fire\<close>, the
  traceback is printed right after its call, the observers subscribed after it are
  called as if nothing had happened, and \<open>fire\<close> returns normally. Whatever the
  observers do, an exception reaches the caller of \<open>fire\<close> only when printing a
  traceback raised it.
\<close>

theorem fire_isolates_failing_observer:
  assumes "undisturbed beh report x (pre @ ob # post)"
      and "fst (beh ob x (pre @ ob # post)) = Some e"
  shows "fire beh report (pre @ ob # post) x tr =
           Some (Ok (), (pre @ ob # post,
                         tr @ concat (map (delivery beh x (pre @ ob # post)) pre)
                            @ [Invoked ob x, Traceback e]
                            @ concat (map (delivery beh x (pre @ ob # post)) post)))
       \<and> invocations (concat (map (delivery beh x (pre @ ob # post)) pre)
                        @ [Invoked ob x, Traceback e]
                        @ concat (map (delivery beh x (pre @ ob # post)) post)) =
           map (\<lambda>ob. (ob, x)) pre @ (ob, x) # map (\<lambda>ob. (ob, x)) post
       \<and> (\<forall>beh' report' obs' r st.
             fire beh' report' obs' x tr = Some (r, st) \<longrightarrow>
             r = Ok () \<or> (\<exists>e1 e2. r = Raise e2 \<and> report' e1 = Some e2))"
proof (intro conjI allI impI)
  have d: "delivery beh x (pre @ ob # post) ob = [Invoked ob x, Traceback e]"
    using assms(2) by (simp add: delivery_def)
  show "fire beh report (pre @ ob # post) x tr =
           Some (Ok (), (pre @ ob # post,
                         tr @ concat (map (delivery beh x (pre @ ob # post)) pre)
                            @ [Invoked ob x, Traceback e]
                            @ concat (map (delivery beh x (pre @ ob # post)) post)))"
    by (simp add: fire_undisturbed [OF assms(1)] d)
  have "invocations (concat (map (delivery beh x (pre @ ob # post)) (pre @ ob # post))) =
        map (\<lambda>ob. (ob, x)) (pre @ ob # post)"
    by (rule invocations_delivery)
  then show "invocations (concat (map (delivery beh x (pre @ ob # post)) pre)
                        @ [Invoked ob x, Traceback e]
                        @ concat (map (delivery beh x (pre @ ob # post)) post)) =
           map (\<lambda>ob. (ob, x)) pre @ (ob, x) # map (\<lambda>ob. (ob, x)) post"
    by (simp add: d)
next
  fix beh' :: "('a, 'b) behaviour" and report' obs' r st
  assume "fire beh' report' obs' x tr = Some (r, st)"
  then have "fire_from beh' report' x 0 (obs', tr) = Some (r, st)" by (simp add: fire_def)
  from fire_from_raise [OF this]
  show "r = Ok () \<or> (\<exists>e1 e2. r = Raise e2 \<and> report' e1 = Some e2)" by simp
qed

text \<open>C4 at three observers of which the second raises \<open>ValueError\<close>.\<close>

theorem fire_isolates_failing_observer_witness:
  "undisturbed flaky prints ''doc'' ([1] @ 2 # [3])
 \<and> fst (flaky 2 ''doc'' ([1] @ 2 # [3])) = Some ValueError
 \<and> fire flaky prints [1, 2, 3] ''doc'' [] =
     Some (Ok (), ([1, 2, 3],
           [Invoked 1 ''doc'', Invoked 2 ''doc'', Traceback ValueError, Invoked 3 ''doc'']))
 \<and> invocations
      [Invoked (1::nat) ''doc'', Invoked 2 ''doc'', Traceback ValueError, Invoked 3 ''doc''] =
     [(1, ''doc''), (2, ''doc''), (3, ''doc'')]"
proof -
  have u: "undisturbed flaky prints ''doc'' ([1] @ 2 # [3])"
    by (simp add: undisturbed_def flaky_def prints_def)
  have h: "fst (flaky 2 ''doc'' ([1] @ 2 # [3])) = Some ValueError"
    by (simp add: flaky_def)
  have out: "fst (flaky ob ''doc'' obs) = (if ob = 2 then Some ValueError else None)" for ob obs
    by (simp add: flaky_def)
  from fire_isolates_failing_observer [OF u h, of "[]"]
  have "fire flaky prints [1, 2, 3] ''doc'' [] =
     Some (Ok (), ([1, 2, 3],
           [Invoked 1 ''doc'', Invoked 2 ''doc'', Traceback ValueError, Invoked 3 ''doc'']))"
    by (simp add: delivery_def out)
  with u h show ?thesis
    by (simp add: invocations_def)
qed

text \<open>
  C4 as stated fails. A raising observer that has unsubscribed itself shortens the list
  under the loop, and the observer subscribed after it is never called; and when
  printing the traceback raises, that exception reaches the caller of \<open>fire\<close>.
\<close>

theorem raising_observer_disturbs_counterexample:
  "fire quitter prints [1, 2, 3] ''doc'' [] =
     Some (Ok (), ([2, 3], [Invoked 1 ''doc'', Traceback ValueError, Invoked 3 ''doc'']))
 \<and> fire flaky jammed [2, 3] ''doc'' [] =
     Some (Raise IOError, ([2, 3], [Invoked 2 ''doc'']))"
  by (simp add: fire_def fire_from.simps try_except_def call_observer_def print_exc_def
      quitter_def flaky_def prints_def jammed_def isub_def)

lemma list_remove_absent: "ob \<notin> set obs \<Longrightarrow> list_remove ob obs = Raise ValueError"
  by (induction obs) auto

lemma list_remove_first: "ob \<notin> set pre \<Longrightarrow> list_remove ob (pre @ ob # post) = Ok (pre @ post)"
  by (induction pre) auto

lemma list_remove_remove1:
  "list_remove ob obs = (if ob \<in> set obs then Ok (remove1 ob obs) else Raise ValueError)"
  by (induction obs) auto

text \<open>
  C9. \<open>unsubscribe\<close> removes the first observer equal to the given one and keeps the
  others in their order; when no observer of the channel equals it, the caller gets
  \<open>ValueError\<close>.
\<close>

theorem isub_removes_first_or_raises:
  "isub obs ob = (if ob \<in> set obs then Ok (remove1 ob obs) else Raise ValueError)
 \<and> (ob \<notin> set pre \<longrightarrow> isub (pre @ ob # post) ob = Ok (pre @ post))
 \<and> (ob \<notin> set obs \<longrightarrow> isub obs ob = Raise ValueError)"
proof (intro conjI impI)
  show "isub obs ob = (if ob \<in> set obs then Ok (remove1 ob obs) else Raise ValueError)"
    unfolding isub_def by (rule list_remove_remove1)
next
  assume "ob \<notin> set pre"
  then show "isub (pre @ ob # post) ob = Ok (pre @ post)"
    unfolding isub_def by (rule list_remove_first)
next
  assume "ob \<notin> set obs"
  then show "isub obs ob = Raise ValueError"
    unfolding isub_def by (rule list_remove_absent)
qed

text \<open>C9 at a channel that holds the observer twice, and at an observer it does not hold.\<close>

theorem isub_removes_first_or_raises_witness:
  "(2::nat) \<notin> set [1, 3] \<and> isub [1, 3, 2, 4, 2] (2::nat) = Ok [1, 3, 4, 2]
 \<and> (5::nat) \<notin> set [1, 3, 2, 4, 2] \<and> isub [1, 3, 2, 4, 2] (5::nat) = Raise ValueError"
  using isub_removes_first_or_raises [of "[1, 3, 2, 4, 2]" "5::nat" "[]" "[]"]
        isub_removes_first_or_raises [of "[1, 3, 2, 4, 2]" "2::nat" "[1, 3]" "[4, 2]"]
  by simp

section \<open>Properties of the resolver\<close>

lemma str_split_nonempty: "str_split sep s \<noteq> []"
  by (induction s) (auto split: list.splits)

lemma str_join_head: "str_join sep ((c # w) # ws) = c # str_join sep (w # ws)"
  by (cases ws) simp_all

lemma dotted_path_Cons:
  "dotted_path (c # cs) = (if c = CHR ''.'' then CHR ''/'' else c) # dotted_path cs"
proof -
  obtain w ws where sp: "str_split CHR ''.'' cs = w # ws"
    using str_split_nonempty[of "CHR ''.''" cs] by (cases "str_split CHR ''.'' cs") auto
  show ?thesis
    by (simp add: dotted_path_def sp str_join_head)
qed

lemma dotted_path_map:
  "dotted_path fullname = map (\<lambda>c. if c = CHR ''.'' then CHR ''/'' else c) fullname"
proof (induction fullname)
  case Nil
  show ?case by (simp add: dotted_path_def)
next
  case (Cons c cs)
  then show ?case by (simp only: dotted_path_Cons list.map)
qed

lemma fn_roots_find:
  "fn_roots fsys roots paths = List.find (path_exists fsys) (candidates roots paths)"
  by (induction roots) (simp_all add: candidates_def Let_def)

lemma fn_roots_None:
  "(fn_roots fsys roots paths = None) =
   (\<forall>p \<in> set roots. \<not> path_exists fsys (path_join p paths)
                     \<and> \<not> path_exists fsys (path_join p paths @ ''.py''))"
  by (induction roots) (simp_all add: Let_def)

lemma fn_roots_first:
  "\<forall>q \<in> set before. \<not> path_exists fsys (path_join q paths)
                     \<and> \<not> path_exists fsys (path_join q paths @ ''.py'') \<Longrightarrow>
   fn_roots fsys (before @ roots) paths = fn_roots fsys roots paths"
  by (induction before) (simp_all add: Let_def)

lemma dotted_examples:
  "dotted_path ''foo.bar'' = ''foo/bar''" "dotted_path ''foo.baz'' = ''foo/baz''"
  "dotted_path ''foo'' = ''foo''"
  by (simp_all add: dotted_path_map)

lemma fn_plugins:
  "fn plugins_world ''foo'' = Some ''/plugins/foo''"
  "fn plugins_world ''foo.bar'' = Some ''/plugins/foo/bar.py''"
  "fn plugins_world ''foo.baz'' = None"
  by (simp_all add: fn_def dotted_examples plugins_world_def bare_world_def path_join_def
      startswith_def endswith_def path_exists_def Let_def)

text \<open>
  C5, as the code has it. The name's dots become slashes; \<open>fn\<close> returns the first
  path that exists among: first root joined with the name, the same with \<^verbatim>\<open>.py\<close>,
  second root joined with the name, and so on. Existence is \<^verbatim>\<open>os.path.exists\<close>: a
  regular file counts as much as a directory. The result is \<open>None\<close> exactly when no
  root has either path, and the roots after the first one with a hit do not matter.
  \<open>fn\<close> returns a value and has no state to change.
\<close>

theorem fn_returns_first_existing_candidate:
  "dotted_path fullname = map (\<lambda>c. if c = CHR ''.'' then CHR ''/'' else c) fullname
 \<and> fn s fullname =
     List.find (path_exists (fs s)) (candidates (sys_path s) (dotted_path fullname))
 \<and> ((fn s fullname = None) =
      (\<forall>p \<in> set (sys_path s).
          \<not> path_exists (fs s) (path_join p (dotted_path fullname))
        \<and> \<not> path_exists (fs s) (path_join p (dotted_path fullname) @ ''.py'')))
 \<and> (sys_path s = before @ p # after
      \<and> (\<forall>q \<in> set before.
            \<not> path_exists (fs s) (path_join q (dotted_path fullname))
          \<and> \<not> path_exists (fs s) (path_join q (dotted_path fullname) @ ''.py''))
      \<and> (path_exists (fs s) (path_join p (dotted_path fullname))
          \<or> path_exists (fs s) (path_join p (dotted_path fullname) @ ''.py''))
      \<longrightarrow> fn s fullname =
            Some (if path_exists (fs s) (path_join p (dotted_path fullname))
                  then path_join p (dotted_path fullname)
                  else path_join p (dotted_path fullname) @ ''.py''))"
proof (intro conjI impI)
  show "dotted_path fullname = map (\<lambda>c. if c = CHR ''.'' then CHR ''/'' else c) fullname"
    by (rule dotted_path_map)
next
  show "fn s fullname =
     List.find (path_exists (fs s)) (candidates (sys_path s) (dotted_path fullname))"
    unfolding fn_def by (rule fn_roots_find)
next
  show "(fn s fullname = None) =
      (\<forall>p \<in> set (sys_path s).
          \<not> path_exists (fs s) (path_join p (dotted_path fullname))
        \<and> \<not> path_exists (fs s) (path_join p (dotted_path fullname) @ ''.py''))"
    unfolding fn_def by (rule fn_roots_None)
next
  assume h: "sys_path s = before @ p # after
      \<and> (\<forall>q \<in> set before.
            \<not> path_exists (fs s) (path_join q (dotted_path fullname))
          \<and> \<not> path_exists (fs s) (path_join q (dotted_path fullname) @ ''.py''))
      \<and> (path_exists (fs s) (path_join p (dotted_path fullname))
          \<or> path_exists (fs s) (path_join p (dotted_path fullname) @ ''.py''))"
  then have "fn s fullname = fn_roots (fs s) (p # after) (dotted_path fullname)"
    by (simp add: fn_def fn_roots_first)
  with h show "fn s fullname =
            Some (if path_exists (fs s) (path_join p (dotted_path fullname))
                  then path_join p (dotted_path fullname)
                  else path_join p (dotted_path fullname) @ ''.py'')"
    by (auto simp: Let_def)
qed

text \<open>
  C5 at the scenario of the specification: under the root \<^verbatim>\<open>/plugins\<close>,
  \<^verbatim>\<open>foo\<close> is a directory and \<^verbatim>\<open>foo/bar.py\<close> a file.
\<close>

theorem fn_returns_first_existing_candidate_witness:
  "sys_path plugins_world = [] @ ''/plugins'' # []
 \<and> path_exists (fs plugins_world) (path_join ''/plugins'' (dotted_path ''foo''))
 \<and> fn plugins_world ''foo'' = Some ''/plugins/foo''
 \<and> fn plugins_world ''foo.bar'' = Some ''/plugins/foo/bar.py''
 \<and> fn plugins_world ''foo.baz'' = None"
  using fn_returns_first_existing_candidate [of "''foo''" plugins_world "[]" "''/plugins''" "[]"]
        fn_returns_first_existing_candidate [of "''foo.bar''" plugins_world "[]" "''/plugins''" "[]"]
        fn_returns_first_existing_candidate [of "''foo.baz''" plugins_world "[]" "''/plugins''" "[]"]
  by (simp add: fn_def dotted_examples plugins_world_def bare_world_def path_join_def
      startswith_def endswith_def path_exists_def candidates_def Let_def)

text \<open>
  C5 as stated fails: when \<^verbatim>\<open>/plugins/foo\<close> is a regular file, \<open>fn\<close> returns it,
  where the test for a directory finds nothing.
\<close>

theorem regular_file_resolves_counterexample:
  "fs file_world ''/plugins/foo'' = Some File
 \<and> fn file_world ''foo'' = Some ''/plugins/foo''
 \<and> resolve_spec (fs file_world) (sys_path file_world) (dotted_path ''foo'') = None"
  by (simp add: fn_def dotted_examples file_world_def bare_world_def path_join_def
      startswith_def endswith_def path_exists_def Let_def)

section \<open>Properties of the loader\<close>

lemma load_module_cached: "sys_modules s fullname = Some m \<Longrightarrow> load_module fullname s = (Ok m, s)"
  by (simp add: load_module_def)

lemma load_module_keeps_cache:
  "sys_modules s fullname = Some m \<Longrightarrow>
   sys_modules (snd (load_module other s)) fullname = Some m"
  by (auto simp: load_module_def load_source_def Let_def split: option.splits sum.splits)

lemma load_module_fresh:
  assumes "sys_modules s fullname = None" and "fn s fullname = Some f"
  shows "load_module fullname s =
     (if \<not> endswith f ''.py''
      then (Ok (set_path (new_module fullname) f),
            s\<lparr>sys_modules := (sys_modules s)(fullname \<mapsto> set_path (new_module fullname) f)\<rparr>)
      else load_source fullname f s)"
  using assms by (simp add: load_module_def Let_def)

lemma load_bar: "load_module ''foo.bar'' plugins_world = (Ok bar_module, bar_loaded)"
proof -
  have "sys_modules plugins_world ''foo.bar'' = None"
    by (simp add: plugins_world_def bare_world_def)
  then have "load_module ''foo.bar'' plugins_world =
             load_source ''foo.bar'' ''/plugins/foo/bar.py'' plugins_world"
    by (simp add: load_module_fresh [OF _ fn_plugins(2)] endswith_def)
  then show ?thesis
    by (simp add: load_source_def Let_def bar_module_def bar_loaded_def plugins_world_def
        bare_world_def)
qed

text \<open>
  C6, as the code has it. For a name that is not yet in \<^verbatim>\<open>sys.modules\<close> and that
  \<open>fn\<close> resolves, to a namespace location or to a source file whose execution does
  not raise, the first load returns the module and leaves it in \<^verbatim>\<open>sys.modules\<close>; a
  source file is executed once. Every later load returns the same module and changes
  nothing: not after the file system, the search path or the sources have changed, and
  not after another module has been loaded. When executing the source file raises, the
  load raises the same exception and the name is not in \<^verbatim>\<open>sys.modules\<close> afterwards.
\<close>

theorem load_module_loads_once:
  assumes "sys_modules s fullname = None" and "fn s fullname = Some f"
  shows "((endswith f ''.py'' \<longrightarrow> source s fullname f = Inr ms)
          \<and> load_module fullname s = (r, s') \<longrightarrow>
            r = Ok (loaded fullname f ms)
          \<and> sys_modules s' fullname = Some (loaded fullname f ms)
          \<and> executed s' = executed s @ (if endswith f ''.py'' then [(fullname, f)] else [])
          \<and> load_module fullname s' = (r, s')
          \<and> load_module fullname (s'\<lparr>sys_path := roots, fs := fsys, source := src\<rparr>) =
              (r, s'\<lparr>sys_path := roots, fs := fsys, source := src\<rparr>)
          \<and> load_module fullname (snd (load_module other s')) =
              (r, snd (load_module other s')))
       \<and> (endswith f ''.py'' \<and> source s fullname f = Inl e \<longrightarrow>
            load_module fullname s =
              (Raise e, s\<lparr>executed := executed s @ [(fullname, f)]\<rparr>)
          \<and> sys_modules (snd (load_module fullname s)) fullname = None)"
proof (intro conjI impI)
  assume h: "(endswith f ''.py'' \<longrightarrow> source s fullname f = Inr ms)
          \<and> load_module fullname s = (r, s')"
  have r: "r = Ok (loaded fullname f ms)"
    and c: "sys_modules s' fullname = Some (loaded fullname f ms)"
    and e: "executed s' = executed s @ (if endswith f ''.py'' then [(fullname, f)] else [])"
    using h unfolding load_module_fresh[OF assms(1,2)]
    by (auto simp: load_source_def loaded_def Let_def split: if_splits)
  show "r = Ok (loaded fullname f ms)" by (rule r)
  show "sys_modules s' fullname = Some (loaded fullname f ms)" by (rule c)
  show "executed s' = executed s @ (if endswith f ''.py'' then [(fullname, f)] else [])"
    by (rule e)
  show "load_module fullname s' = (r, s')"
    using c r by (simp add: load_module_cached)
  have "sys_modules (s'\<lparr>sys_path := roots, fs := fsys, source := src\<rparr>) fullname =
        Some (loaded fullname f ms)"
    using c by simp
  then show "load_module fullname (s'\<lparr>sys_path := roots, fs := fsys, source := src\<rparr>) =
           (r, s'\<lparr>sys_path := roots, fs := fsys, source := src\<rparr>)"
    unfolding r by (rule load_module_cached)
  have "sys_modules (snd (load_module other s')) fullname = Some (loaded fullname f ms)"
    using c by (rule load_module_keeps_cache)
  then show "load_module fullname (snd (load_module other s')) =
      (r, snd (load_module other s'))"
    unfolding r by (rule load_module_cached)
next
  assume h: "endswith f ''.py'' \<and> source s fullname f = Inl e"
  then show run: "load_module fullname s =
              (Raise e, s\<lparr>executed := executed s @ [(fullname, f)]\<rparr>)"
    unfolding load_module_fresh[OF assms(1,2)] by (simp add: load_source_def)
  show "sys_modules (snd (load_module fullname s)) fullname = None"
    unfolding run using assms(1) by simp
qed

text \<open>
  C6 at the module \<^verbatim>\<open>foo.bar\<close> of the scenario, and at the same module when its
  source file cannot be read.
\<close>

theorem load_module_loads_once_witness:
  "sys_modules plugins_world ''foo.bar'' = None
 \<and> fn plugins_world ''foo.bar'' = Some ''/plugins/foo/bar.py''
 \<and> source plugins_world ''foo.bar'' ''/plugins/foo/bar.py'' =
     Inr [(''Insert'', TypeObject text_command)]
 \<and> load_module ''foo.bar'' plugins_world = (Ok bar_module, bar_loaded)
 \<and> sys_modules bar_loaded ''foo.bar'' = Some bar_module
 \<and> executed bar_loaded = [(''foo.bar'', ''/plugins/foo/bar.py'')]
 \<and> load_module ''foo.bar'' bar_loaded = (Ok bar_module, bar_loaded)
 \<and> load_module ''foo.bar'' (bar_loaded\<lparr>sys_path := [], fs := no_files, source := no_source\<rparr>) =
     (Ok bar_module, bar_loaded\<lparr>sys_path := [], fs := no_files, source := no_source\<rparr>)
 \<and> source (plugins_world\<lparr>source := no_source\<rparr>) ''foo.bar'' ''/plugins/foo/bar.py'' =
     Inl IOError
 \<and> load_module ''foo.bar'' (plugins_world\<lparr>source := no_source\<rparr>) =
     (Raise IOError,
      plugins_world\<lparr>source := no_source, executed := [(''foo.bar'', ''/plugins/foo/bar.py'')]\<rparr>)
 \<and> sys_modules (snd (load_module ''foo.bar'' (plugins_world\<lparr>source := no_source\<rparr>)))
      ''foo.bar'' = None"
proof -
  have a: "sys_modules plugins_world ''foo.bar'' = None"
    by (simp add: plugins_world_def bare_world_def)
  have b: "fn plugins_world ''foo.bar'' = Some ''/plugins/foo/bar.py''"
    by (rule fn_plugins)
  have c: "source plugins_world ''foo.bar'' ''/plugins/foo/bar.py'' =
     Inr [(''Insert'', TypeObject text_command)]"
    by (simp add: plugins_world_def bare_world_def)
  have a': "sys_modules (plugins_world\<lparr>source := no_source\<rparr>) ''foo.bar'' = None"
    by (simp add: plugins_world_def bare_world_def)
  have b': "fn (plugins_world\<lparr>source := no_source\<rparr>) ''foo.bar'' = Some ''/plugins/foo/bar.py''"
    using b by (simp add: fn_def)
  have c': "source (plugins_world\<lparr>source := no_source\<rparr>) ''foo.bar'' ''/plugins/foo/bar.py'' =
     Inl IOError"
    by (simp add: no_source_def)
  have py: "endswith ''/plugins/foo/bar.py'' ''.py''" by (simp add: endswith_def)
  from load_module_loads_once [OF a b,
      where ms = "[(''Insert'', TypeObject text_command)]" and roots = "[]"
        and fsys = no_files and src = no_source and other = "''foo''"
        and r = "Ok bar_module" and s' = bar_loaded] c load_bar py
  have ok: "sys_modules bar_loaded ''foo.bar'' = Some bar_module
      \<and> executed bar_loaded = executed plugins_world @ [(''foo.bar'', ''/plugins/foo/bar.py'')]
      \<and> load_module ''foo.bar'' bar_loaded = (Ok bar_module, bar_loaded)
      \<and> load_module ''foo.bar'' (bar_loaded\<lparr>sys_path := [], fs := no_files, source := no_source\<rparr>) =
     (Ok bar_module, bar_loaded\<lparr>sys_path := [], fs := no_files, source := no_source\<rparr>)"
    by (simp add: loaded_def bar_module_def)
  have ex: "executed plugins_world = []" by (simp add: plugins_world_def bare_world_def)
  have "endswith ''/plugins/foo/bar.py'' ''.py''
          \<and> source (plugins_world\<lparr>source := no_source\<rparr>) ''foo.bar'' ''/plugins/foo/bar.py'' =
              Inl IOError"
    using c' py by (rule_tac conjI)
  with load_module_loads_once [OF a' b', where e = IOError]
  have bad: "load_module ''foo.bar'' (plugins_world\<lparr>source := no_source\<rparr>) =
     (Raise IOError,
      plugins_world\<lparr>source := no_source\<rparr>
        \<lparr>executed := executed (plugins_world\<lparr>source := no_source\<rparr>) @
                       [(''foo.bar'', ''/plugins/foo/bar.py'')]\<rparr>)
    \<and> sys_modules (snd (load_module ''foo.bar'' (plugins_world\<lparr>source := no_source\<rparr>)))
      ''foo.bar'' = None"
    by blast
  then have bad1: "load_module ''foo.bar'' (plugins_world\<lparr>source := no_source\<rparr>) =
     (Raise IOError,
      plugins_world\<lparr>source := no_source, executed := [(''foo.bar'', ''/plugins/foo/bar.py'')]\<rparr>)"
    by (simp add: ex)
  from bad have bad2:
    "sys_modules (snd (load_module ''foo.bar'' (plugins_world\<lparr>source := no_source\<rparr>)))
      ''foo.bar'' = None"
    by (rule conjunct2)
  from ok have ok': "sys_modules bar_loaded ''foo.bar'' = Some bar_module"
    "executed bar_loaded = [(''foo.bar'', ''/plugins/foo/bar.py'')]"
    "load_module ''foo.bar'' bar_loaded = (Ok bar_module, bar_loaded)"
    "load_module ''foo.bar'' (bar_loaded\<lparr>sys_path := [], fs := no_files, source := no_source\<rparr>) =
     (Ok bar_module, bar_loaded\<lparr>sys_path := [], fs := no_files, source := no_source\<rparr>)"
    by (simp_all add: ex)
  show ?thesis
    by (intro conjI) (rule a b c load_bar ok' c' bad1 bad2)+
qed

text \<open>
  C6 as stated fails: a name that resolves to a source file with a syntax error does not
  load, and nothing is cached for it.
\<close>

theorem broken_source_load_fails_counterexample:
  "sys_modules broken_world ''broken'' = None
 \<and> fn broken_world ''broken'' = Some ''/plugins/broken.py''
 \<and> fst (load_module ''broken'' broken_world) = Raise SyntaxError
 \<and> sys_modules (snd (load_module ''broken'' broken_world)) ''broken'' = None"
  by (simp add: load_module_def load_source_def fn_def dotted_path_map broken_world_def
      bare_world_def path_join_def startswith_def endswith_def path_exists_def Let_def)

text \<open>
  C10, as the code has it. \<open>load_module\<close> returns the cached module when there is
  one. Otherwise, when \<open>fn\<close> finds nothing it raises \<open>AttributeError\<close> and changes
  nothing; when \<open>fn\<close> finds a path that does not end in \<^verbatim>\<open>.py\<close> it returns a new
  namespace module and caches it; when \<open>fn\<close> finds a source file it returns the
  executed module, or raises what the execution raised.
\<close>

theorem load_module_outcomes:
  "(sys_modules s fullname = Some cached \<longrightarrow> load_module fullname s = (Ok cached, s))
 \<and> (sys_modules s fullname = None \<and> fn s fullname = None \<longrightarrow>
       load_module fullname s = (Raise AttributeError, s))
 \<and> (sys_modules s fullname = None \<and> fn s fullname = Some f \<and> \<not> endswith f ''.py'' \<longrightarrow>
       load_module fullname s =
         (Ok (set_path (new_module fullname) f),
          s\<lparr>sys_modules := (sys_modules s)(fullname \<mapsto> set_path (new_module fullname) f)\<rparr>))
 \<and> (sys_modules s fullname = None \<and> fn s fullname = Some f \<and> endswith f ''.py'' \<longrightarrow>
       fst (load_module fullname s) =
         (case source s fullname f of
            Inl e \<Rightarrow> Raise e
          | Inr ms \<Rightarrow> Ok \<lparr>mod_name = fullname, mod_path = None, mod_file = Some f,
                          getmembers = ms\<rparr>))"
  by (simp add: load_module_def load_source_def Let_def split: sum.splits)

text \<open>
  C10 at the scenario: the finder knows \<^verbatim>\<open>foo.bar\<close>, the files disappear, and
  \<open>load_module\<close> raises \<open>AttributeError\<close>; with the files in place \<^verbatim>\<open>foo\<close> loads as
  a namespace module and \<^verbatim>\<open>foo.bar\<close> from its source.
\<close>

theorem load_module_outcomes_witness:
  "find_module plugins_world ''foo.bar'' = Some myloader
 \<and> sys_modules (plugins_world\<lparr>fs := no_files\<rparr>) ''foo.bar'' = None
 \<and> fn (plugins_world\<lparr>fs := no_files\<rparr>) ''foo.bar'' = None
 \<and> load_module ''foo.bar'' (plugins_world\<lparr>fs := no_files\<rparr>) =
     (Raise AttributeError, plugins_world\<lparr>fs := no_files\<rparr>)
 \<and> fn plugins_world ''foo'' = Some ''/plugins/foo''
 \<and> fst (load_module ''foo'' plugins_world) = Ok (set_path (new_module ''foo'') ''/plugins/foo'')
 \<and> fst (load_module ''foo.bar'' plugins_world) = Ok bar_module
 \<and> load_module ''foo.bar'' bar_loaded = (Ok bar_module, bar_loaded)"
proof -
  have gone: "fn (plugins_world\<lparr>fs := no_files\<rparr>) ''foo.bar'' = None"
    by (simp add: fn_def dotted_examples plugins_world_def bare_world_def path_exists_def
        no_files_def Let_def)
  have nc: "sys_modules (plugins_world\<lparr>fs := no_files\<rparr>) ''foo.bar'' = None"
    "sys_modules plugins_world ''foo'' = None" "sys_modules plugins_world ''foo.bar'' = None"
    by (simp_all add: plugins_world_def bare_world_def)
  have cached: "sys_modules bar_loaded ''foo.bar'' = Some bar_module"
    by (simp add: bar_loaded_def)
  have src: "source plugins_world ''foo.bar'' ''/plugins/foo/bar.py'' =
     Inr [(''Insert'', TypeObject text_command)]"
    by (simp add: plugins_world_def bare_world_def)
  from load_module_outcomes [of "plugins_world\<lparr>fs := no_files\<rparr>" "''foo.bar''" bar_module "[]"]
       load_module_outcomes [of plugins_world "''foo''" bar_module "''/plugins/foo''"]
       load_module_outcomes [of plugins_world "''foo.bar''" bar_module "''/plugins/foo/bar.py''"]
       load_module_outcomes [of bar_loaded "''foo.bar''" bar_module "[]"]
       gone nc cached src
  show ?thesis
    by (simp add: fn_plugins find_module_def endswith_def bar_module_def)
qed

text \<open>
  C10 as stated fails: \<open>fn\<close> returns a location for \<^verbatim>\<open>crash\<close>, and \<open>load_module\<close>
  raises what the source raised instead of returning a module.
\<close>

theorem raising_source_load_fails_counterexample:
  "fn crash_world ''crash'' = Some ''/plugins/crash.py''
 \<and> load_module ''crash'' crash_world =
     (Raise (PluginError ''raised at module scope''),
      crash_world\<lparr>executed := [(''crash'', ''/plugins/crash.py'')]\<rparr>)"
  by (simp add: load_module_def load_source_def fn_def dotted_path_map crash_world_def
      bare_world_def path_join_def startswith_def endswith_def path_exists_def Let_def)

section \<open>Properties of the registrar\<close>

lemma add_on_load:
  "add inst ''on_load'' s =
     (case add_raises inst ''on_load'' of
        Some e \<Rightarrow> (Raise e, s)
      | None \<Rightarrow> (Ok (), s\<lparr>on_load := on_load s @ hooked inst ''on_load''\<rparr>))"
  by (simp add: add_def add_raises_def hooked_def truthy_def iadd_def
      split: res.splits option.splits sum.splits bool.splits)

lemma add_on_new:
  "add inst ''on_new'' s =
     (case add_raises inst ''on_new'' of
        Some e \<Rightarrow> (Raise e, s)
      | None \<Rightarrow> (Ok (), s\<lparr>on_new := on_new s @ hooked inst ''on_new''\<rparr>))"
  by (simp add: add_def add_raises_def hooked_def truthy_def iadd_def
      split: res.splits option.splits sum.splits bool.splits)

lemma hooked_when_raises: "add_raises inst name = Some e \<Longrightarrow> hooked inst name = []"
  by (auto simp: add_raises_def hooked_def truthy_def
      split: res.splits option.splits sum.splits)

lemma wire_listener_eq:
  "wire_listener c s =
     (case construct c of
        Inl e \<Rightarrow> (Raise e, s)
      | Inr inst \<Rightarrow>
          (case add_raises inst ''on_load'' of
             Some e \<Rightarrow> (Raise e, s)
           | None \<Rightarrow>
               (case add_raises inst ''on_new'' of
                  Some e \<Rightarrow> (Raise e, s\<lparr>on_load := on_load s @ hooked inst ''on_load''\<rparr>)
                | None \<Rightarrow>
                    (Ok (), s\<lparr>on_load := on_load s @ hooked inst ''on_load'',
                               on_new := on_new s @ hooked inst ''on_new''\<rparr>))))"
  by (simp add: wire_listener_def add_on_load add_on_new split: sum.splits option.splits)

lemma wire_listener_commands: "commands (snd (wire_listener c s)) = commands s"
  by (simp add: wire_listener_eq split: sum.splits option.splits)

lemma register_member_eq:
  "register_member name c s =
     (if sub_EventListener c then wire_listener c s
      else case command_glue c of None \<Rightarrow> (Ok (), s) | Some g \<Rightarrow> register name g s)"
  by (simp add: register_member_def command_glue_def)

lemma skip_fields:
  "commands (snd (skip c e s)) = commands s"
  "on_load (snd (skip c e s)) = on_load s"
  "on_new (snd (skip c e s)) = on_new s"
  "print_raises (snd (skip c e s)) = print_raises s"
  "register_raises (snd (skip c e s)) = register_raises s"
  by (simp_all add: skip_def print_line_def split: option.splits)

lemma register_member_fields:
  "print_raises (snd (register_member name c s)) = print_raises s"
  "register_raises (snd (register_member name c s)) = register_raises s"
  "set (commands s) \<subseteq> set (commands (snd (register_member name c s)))"
  "set (on_load s) \<subseteq> set (on_load (snd (register_member name c s)))"
  "set (on_new s) \<subseteq> set (on_new (snd (register_member name c s)))"
  by (auto simp: register_member_eq wire_listener_eq register_def
      split: sum.splits option.splits)

lemma member_step_unfold:
  "member_step name c s =
     (case register_member name c s of
        (Ok u, s1) \<Rightarrow> s1
      | (Raise e, s1) \<Rightarrow> snd (skip c e s1))"
  by (simp add: member_step_def try_except_def split: prod.splits res.splits)

lemma member_step_fields:
  "print_raises (member_step name c s) = print_raises s"
  "register_raises (member_step name c s) = register_raises s"
  "set (commands s) \<subseteq> set (commands (member_step name c s))"
  "set (on_load s) \<subseteq> set (on_load (member_step name c s))"
  "set (on_new s) \<subseteq> set (on_new (member_step name c s))"
  using register_member_fields [where name = name and c = c and s = s]
  by (auto simp: member_step_unfold skip_fields split: prod.splits res.splits)

lemma for_members_step:
  "for_members ((name, TypeObject c) # items) s =
     (case fst (try_except (register_member name c) (skip c) s) of
        Ok u \<Rightarrow> for_members items (member_step name c s)
      | Raise e \<Rightarrow> (Raise e, member_step name c s))"
  by (simp add: member_step_def split: prod.splits res.splits)

lemma for_members_keeps:
  "print_raises (snd (for_members items s)) = print_raises s
 \<and> register_raises (snd (for_members items s)) = register_raises s
 \<and> set (commands s) \<subseteq> set (commands (snd (for_members items s)))
 \<and> set (on_load s) \<subseteq> set (on_load (snd (for_members items s)))
 \<and> set (on_new s) \<subseteq> set (on_new (snd (for_members items s)))"
proof (induction items arbitrary: s)
  case Nil
  show ?case by simp
next
  case (Cons item items)
  obtain name m where item: "item = (name, m)" by (cases item)
  show ?case
  proof (cases m)
    case NonType
    with item Cons show ?thesis by simp
  next
    case (TypeObject c)
    show ?thesis
    proof (cases "fst (try_except (register_member name c) (skip c) s)")
      case (Ok u)
      then have eq: "for_members (item # items) s = for_members items (member_step name c s)"
        using item TypeObject by (simp only: for_members_step res.case)
      from Cons [of "member_step name c s"] member_step_fields [where name = name and c = c and s = s]
      show ?thesis unfolding eq by auto
    next
      case (Raise e)
      then have eq: "for_members (item # items) s = (Raise e, member_step name c s)"
        using item TypeObject by (simp only: for_members_step res.case)
      from member_step_fields [where name = name and c = c and s = s]
      show ?thesis unfolding eq by auto
    qed
  qed
qed







lemma member_step_listener:
  "sub_EventListener c \<Longrightarrow> construct c = Inr inst \<Longrightarrow>
   on_load (member_step name c s) = on_load s @ hooked inst ''on_load''
 \<and> on_new (member_step name c s) =
     on_new s @ (if add_raises inst ''on_load'' = None then hooked inst ''on_new'' else [])
 \<and> commands (member_step name c s) = commands s"
  by (auto simp: member_step_unfold register_member_eq wire_listener_eq skip_fields
      hooked_when_raises split: option.splits)



lemma import_top_level:
  assumes "sys_modules s name = None" and "fn s name = Some f" and "CHR ''.'' \<notin> set name"
  shows "import_module name s =
     (case load_module name s of
        (Raise e, s') \<Rightarrow> (Raise e, s')
      | (Ok m, s') \<Rightarrow>
          (case sys_modules s' name of None \<Rightarrow> (Raise KeyError, s') | Some m' \<Rightarrow> (Ok m', s')))"
proof -
  have split: "str_split CHR ''.'' name = [name]"
    using assms(3) by (induction name) auto
  show ?thesis
    using assms(1,2)
    by (simp add: import_module_def split import_submodule_def find_module_def
        split: prod.splits res.splits)
qed

lemma import_myplugin:
  "import_module ''myplugin'' (garbled_world\<lparr>stdout := out\<rparr>) =
     (Ok \<lparr>mod_name = ''myplugin'', mod_path = None, mod_file = Some ''/plugins/myplugin.py'',
          getmembers = plugin_members\<rparr>,
      garbled_world
        \<lparr>stdout := out,
         sys_modules := [''myplugin'' \<mapsto>
           \<lparr>mod_name = ''myplugin'', mod_path = None, mod_file = Some ''/plugins/myplugin.py'',
            getmembers = plugin_members\<rparr>],
         executed := [(''myplugin'', ''/plugins/myplugin.py'')]\<rparr>)"
proof -
  have nc: "sys_modules (garbled_world\<lparr>stdout := out\<rparr>) ''myplugin'' = None"
    by (simp add: garbled_world_def bare_world_def)
  have f: "fn (garbled_world\<lparr>stdout := out\<rparr>) ''myplugin'' = Some ''/plugins/myplugin.py''"
    by (simp add: fn_def dotted_path_map garbled_world_def bare_world_def path_join_def
        startswith_def endswith_def path_exists_def Let_def)
  have nd: "CHR ''.'' \<notin> set ''myplugin''" by simp
  have ld: "load_module ''myplugin'' (garbled_world\<lparr>stdout := out\<rparr>) =
     (Ok \<lparr>mod_name = ''myplugin'', mod_path = None, mod_file = Some ''/plugins/myplugin.py'',
          getmembers = plugin_members\<rparr>,
      garbled_world
        \<lparr>stdout := out,
         sys_modules := [''myplugin'' \<mapsto>
           \<lparr>mod_name = ''myplugin'', mod_path = None, mod_file = Some ''/plugins/myplugin.py'',
            getmembers = plugin_members\<rparr>],
         executed := [(''myplugin'', ''/plugins/myplugin.py'')]\<rparr>)"
    unfolding load_module_fresh [OF nc f]
    by (simp add: endswith_def load_source_def Let_def garbled_world_def bare_world_def)
  show ?thesis
    unfolding import_top_level [OF nc f nd] ld by simp
qed

lemma garbled_loop:
  "print_raises s = print_raises garbled_world \<Longrightarrow>
   for_members plugin_members s = (Raise UnicodeError, s)"
  by (simp add: plugin_members_def try_except_def register_member_def wire_listener_def
      failing_listener_def skip_def print_line_def garbled_world_def)

text \<open>
  C1, as the code has it. When printing the first line and printing the traceback in
  the outer handler do not raise, \<open>reload_plugin\<close> returns normally, whatever the
  import does and whatever the members are: when the import raises, the traceback is
  printed and nothing else happens; when it returns a module, the state is the one the
  loop over its members leaves, with the traceback printed when the loop ended by an
  exception (a raise of the inner handler).
\<close>

theorem reload_plugin_never_raises:
  assumes "print_raises s (Loading name) = None"
      and "\<forall>e. print_raises (snd (importer name (s\<lparr>stdout := stdout s @ [Loading name]\<rparr>)))
                 (PrintExc e) = None"
  shows "fst (reload_plugin importer name s) = Ok ()
       \<and> (case importer name (s\<lparr>stdout := stdout s @ [Loading name]\<rparr>) of
            (Raise e, s1) \<Rightarrow>
              snd (reload_plugin importer name s) = s1\<lparr>stdout := stdout s1 @ [PrintExc e]\<rparr>
          | (Ok m, s1) \<Rightarrow>
              (case for_members (getmembers m) s1 of
                 (Ok u, s2) \<Rightarrow> snd (reload_plugin importer name s) = s2
               | (Raise e, s2) \<Rightarrow>
                   snd (reload_plugin importer name s) =
                     s2\<lparr>stdout := stdout s2 @ [PrintExc e]\<rparr>))"
proof -
  let ?s0 = "s\<lparr>stdout := stdout s @ [Loading name]\<rparr>"
  obtain r s1 where imp: "importer name ?s0 = (r, s1)" by (cases "importer name ?s0")
  from assms(2) imp have pe: "\<And>e. print_raises s1 (PrintExc e) = None" by simp
  show ?thesis
  proof (cases r)
    case (Raise e)
    with imp pe assms(1) show ?thesis
      by (simp add: reload_plugin_def print_line_def try_except_def)
  next
    case (Ok m)
    obtain r2 s2 where fm: "for_members (getmembers m) s1 = (r2, s2)"
      by (cases "for_members (getmembers m) s1")
    from for_members_keeps [of "getmembers m" s1] fm
    have "print_raises s2 = print_raises s1" by simp
    with pe have pe2: "\<And>e. print_raises s2 (PrintExc e) = None" by simp
    show ?thesis
    proof (cases r2)
      case (Ok u)
      with imp \<open>r = Ok m\<close> fm assms(1) show ?thesis
        by (simp add: reload_plugin_def print_line_def try_except_def)
    next
      case (Raise e)
      with imp \<open>r = Ok m\<close> fm pe2 assms(1) show ?thesis
        by (simp add: reload_plugin_def print_line_def try_except_def)
    qed
  qed
qed

text \<open>
  C1 at a module whose first class has a raising constructor, in a host where
  formatting the skip line raises: the exception of the inner handler ends the loop,
  the outer handler prints it, and \<open>reload_plugin\<close> returns.
\<close>

theorem reload_plugin_never_raises_witness:
  "print_raises garbled_world (Loading ''myplugin'') = None
 \<and> (\<forall>e. print_raises
           (snd (import_module ''myplugin''
                  (garbled_world\<lparr>stdout := stdout garbled_world @ [Loading ''myplugin'']\<rparr>)))
           (PrintExc e) = None)
 \<and> fst (reload_plugin import_module ''myplugin'' garbled_world) = Ok ()
 \<and> stdout (snd (reload_plugin import_module ''myplugin'' garbled_world)) =
     [Loading ''myplugin'', PrintExc UnicodeError]"
proof -
  have a: "print_raises garbled_world (Loading ''myplugin'') = None"
    by (simp add: garbled_world_def)
  have b: "\<forall>e. print_raises
           (snd (import_module ''myplugin''
                  (garbled_world\<lparr>stdout := stdout garbled_world @ [Loading ''myplugin'']\<rparr>)))
           (PrintExc e) = None"
    by (simp add: import_myplugin) (simp add: garbled_world_def)
  have out: "stdout garbled_world = []" by (simp add: garbled_world_def bare_world_def)
  from reload_plugin_never_raises [of garbled_world "''myplugin''" import_module] a b
  have "fst (reload_plugin import_module ''myplugin'' garbled_world) = Ok ()
      \<and> stdout (snd (reload_plugin import_module ''myplugin'' garbled_world)) =
          [Loading ''myplugin'', PrintExc UnicodeError]"
    by (simp add: import_myplugin garbled_loop out)
  with a b show ?thesis by blast
qed

text \<open>
  C1 as stated fails. The first \<^verbatim>\<open>print\<close> stands before the \<^verbatim>\<open>try\<close>: when the output
  stream raises, \<open>reload_plugin\<close> raises. And when the import fails and printing the
  traceback raises, that exception leaves the outer handler.
\<close>

theorem failing_print_propagates_counterexample:
  "reload_plugin import_module ''oddhooks'' stdout_closed_world =
     (Raise IOError, stdout_closed_world)
 \<and> reload_plugin import_module ''missing'' stderr_closed_world =
     (Raise IOError, stderr_closed_world\<lparr>stdout := [Loading ''missing'']\<rparr>)"
  by (simp add: reload_plugin_def print_line_def try_except_def import_module_def
      import_submodule_def find_module_def fn_def dotted_path_map path_exists_def
      stdout_closed_world_def stderr_closed_world_def oddhooks_world_def bare_world_def
      Let_def)

text \<open>
  C2. A type object is handled by the branch of the first kind it satisfies, in the
  order EventListener, TextCommand, WindowCommand, ApplicationCommand, and by no
  other: the listener branch leaves the command table as it is, a command branch
  leaves the channels as they are and adds at most the one entry for its own wrapper,
  and a type that subclasses EventListener is never registered as a command, whatever
  else it subclasses.
\<close>

theorem classification_is_first_match:
  "register_member name c s =
     (case classify_spec c of
        None \<Rightarrow> (Ok (), s)
      | Some EventListener \<Rightarrow> wire_listener c s
      | Some TextCommand \<Rightarrow> register name (TextCommandGlue c) s
      | Some WindowCommand \<Rightarrow> register name (WindowCommandGlue c) s
      | Some ApplicationCommand \<Rightarrow> register name (ApplicationCommandGlue c) s)
 \<and> commands (snd (wire_listener c s)) = commands s
 \<and> on_load (snd (register name g s)) = on_load s
 \<and> on_new (snd (register name g s)) = on_new s
 \<and> (commands (snd (register name g s)) = commands s
      \<or> commands (snd (register name g s)) = commands s @ [(name, g)])
 \<and> (sub_EventListener c \<longrightarrow>
        commands (snd (for_members [(name, TypeObject c)] s)) = commands s)"
proof (intro conjI impI)
  show "register_member name c s =
     (case classify_spec c of
        None \<Rightarrow> (Ok (), s)
      | Some EventListener \<Rightarrow> wire_listener c s
      | Some TextCommand \<Rightarrow> register name (TextCommandGlue c) s
      | Some WindowCommand \<Rightarrow> register name (WindowCommandGlue c) s
      | Some ApplicationCommand \<Rightarrow> register name (ApplicationCommandGlue c) s)"
    by (simp add: register_member_def classify_spec_def)
next
  show "commands (snd (wire_listener c s)) = commands s"
    by (rule wire_listener_commands)
next
  show "on_load (snd (register name g s)) = on_load s"
    by (simp add: register_def split: option.splits)
next
  show "on_new (snd (register name g s)) = on_new s"
    by (simp add: register_def split: option.splits)
next
  show "commands (snd (register name g s)) = commands s
      \<or> commands (snd (register name g s)) = commands s @ [(name, g)]"
    by (simp add: register_def split: option.splits)
next
  assume l: "sub_EventListener c"
  have "commands (snd (for_members [(name, TypeObject c)] s)) = commands (member_step name c s)"
    by (simp add: for_members_step del: for_members.simps(3) split: res.splits)
  also have "\<dots> = commands s"
    using l wire_listener_commands [of c s]
    by (auto simp: member_step_unfold register_member_eq skip_fields
        split: prod.splits res.splits)
  finally show "commands (snd (for_members [(name, TypeObject c)] s)) = commands s" .
qed

text \<open>C2 at a class that subclasses all four base classes.\<close>

theorem classification_is_first_match_witness:
  "sub_EventListener hybrid \<and> sub_TextCommand hybrid
 \<and> classify_spec hybrid = Some EventListener
 \<and> commands (snd (for_members [(''Hybrid'', TypeObject hybrid)] bare_world)) = []
 \<and> on_new (snd (for_members [(''Hybrid'', TypeObject hybrid)] bare_world)) =
     [PyObj 10 (Inr True) True]"
  using classification_is_first_match [of "''Hybrid''" hybrid bare_world]
  by (simp add: hybrid_def bare_world_def classify_spec_def try_except_def
      register_member_def wire_listener_eq hooked_def add_raises_def getattr_def truthy_def)








text \<open>
  C8, as the code has it. For a listener class whose constructor returns, the loop
  appends to \<^verbatim>\<open>on_load\<close> the instance's \<^verbatim>\<open>on_load\<close> attribute and to \<^verbatim>\<open>on_new\<close>
  its \<^verbatim>\<open>on_new\<close> attribute, each when the attribute is there and its truth value is
  true, and changes nothing else; when reading or testing the \<^verbatim>\<open>on_load\<close> attribute
  raises, \<^verbatim>\<open>on_new\<close> is not looked at. A listener with only a true \<^verbatim>\<open>on_new\<close>
  attribute is called once, after the observers already there, when \<^verbatim>\<open>on_new\<close> fires
  undisturbed, and firing \<^verbatim>\<open>on_load\<close> does what it did before.
\<close>

theorem listener_hooks_wired_by_truth_value:
  assumes "sub_EventListener c" and "construct c = Inr inst"
  shows "(add_raises inst ''on_load'' = None \<and> add_raises inst ''on_new'' = None \<longrightarrow>
            for_members [(name, TypeObject c)] s =
              (Ok (), s\<lparr>on_load := on_load s @ hooked inst ''on_load'',
                         on_new := on_new s @ hooked inst ''on_new''\<rparr>))
       \<and> on_load (snd (for_members [(name, TypeObject c)] s)) =
           on_load s @ hooked inst ''on_load''
       \<and> on_new (snd (for_members [(name, TypeObject c)] s)) =
           on_new s @ (if add_raises inst ''on_load'' = None then hooked inst ''on_new'' else [])
       \<and> commands (snd (for_members [(name, TypeObject c)] s)) = commands s
       \<and> (getattr inst ''on_load'' = Ok None \<and> getattr inst ''on_new'' = Ok (Some h)
            \<and> truthy h \<longrightarrow>
            on_load (snd (for_members [(name, TypeObject c)] s)) = on_load s
          \<and> on_new (snd (for_members [(name, TypeObject c)] s)) = on_new s @ [h]
          \<and> (undisturbed beh report x (on_new s @ [h]) \<longrightarrow>
               fire beh report (on_new (snd (for_members [(name, TypeObject c)] s))) x [] =
                 Some (Ok (), (on_new s @ [h],
                               concat (map (delivery beh x (on_new s @ [h])) (on_new s @ [h]))))
             \<and> invocations (concat (map (delivery beh x (on_new s @ [h])) (on_new s @ [h]))) =
                 map (\<lambda>ob. (ob, x)) (on_new s) @ [(h, x)])
          \<and> fire beh report (on_load (snd (for_members [(name, TypeObject c)] s))) x [] =
              fire beh report (on_load s) x [])"
proof -
  have st: "snd (for_members [(name, TypeObject c)] s) = member_step name c s"
    by (simp add: for_members_step del: for_members.simps(3) split: res.splits)
  note ms = member_step_listener [OF assms, of name s]
  have run: "for_members [(name, TypeObject c)] s =
              (Ok (), s\<lparr>on_load := on_load s @ hooked inst ''on_load'',
                         on_new := on_new s @ hooked inst ''on_new''\<rparr>)"
    if "add_raises inst ''on_load'' = None \<and> add_raises inst ''on_new'' = None"
    using that assms
    by (simp add: try_except_def register_member_eq wire_listener_eq)
  have fields: "on_load (snd (for_members [(name, TypeObject c)] s)) =
           on_load s @ hooked inst ''on_load''
       \<and> on_new (snd (for_members [(name, TypeObject c)] s)) =
           on_new s @ (if add_raises inst ''on_load'' = None then hooked inst ''on_new'' else [])
       \<and> commands (snd (for_members [(name, TypeObject c)] s)) = commands s"
    unfolding st by (rule ms)
  have scen: "on_load (snd (for_members [(name, TypeObject c)] s)) = on_load s
          \<and> on_new (snd (for_members [(name, TypeObject c)] s)) = on_new s @ [h]"
    if "getattr inst ''on_load'' = Ok None \<and> getattr inst ''on_new'' = Ok (Some h) \<and> truthy h"
    using that fields by (simp add: hooked_def add_raises_def)
  have fired: "fire beh report (on_new s @ [h]) x [] =
                 Some (Ok (), (on_new s @ [h],
                               concat (map (delivery beh x (on_new s @ [h])) (on_new s @ [h]))))"
    if "undisturbed beh report x (on_new s @ [h])"
    using fire_undisturbed [OF that, of "[]"] by simp
  have inv: "invocations (concat (map (delivery beh x (on_new s @ [h])) (on_new s @ [h]))) =
                 map (\<lambda>ob. (ob, x)) (on_new s) @ [(h, x)]"
    using invocations_delivery [of beh x "on_new s @ [h]" "on_new s @ [h]"] by simp
  show ?thesis
    using run fields scen fired inv by (simp del: for_members.simps map_append)
qed

text \<open>C8 at a listener that defines only \<^verbatim>\<open>on_new\<close>, in a fresh host.\<close>

theorem listener_hooks_wired_by_truth_value_witness:
  "sub_EventListener new_listener
 \<and> construct new_listener = Inr [(''on_new'', Holds (PyObj 11 (Inr True) True))]
 \<and> getattr [(''on_new'', Holds (PyObj 11 (Inr True) True))] ''on_load'' = Ok None
 \<and> getattr [(''on_new'', Holds (PyObj 11 (Inr True) True))] ''on_new'' =
     Ok (Some (PyObj 11 (Inr True) True))
 \<and> truthy (PyObj 11 (Inr True) True)
 \<and> undisturbed (call_outcome quiet) prints ''doc'' (on_new bare_world @ [PyObj 11 (Inr True) True])
 \<and> on_load (snd (for_members [(''Watcher'', TypeObject new_listener)] bare_world)) = []
 \<and> on_new (snd (for_members [(''Watcher'', TypeObject new_listener)] bare_world)) =
     [PyObj 11 (Inr True) True]
 \<and> fire (call_outcome quiet) prints
      (on_new (snd (for_members [(''Watcher'', TypeObject new_listener)] bare_world))) ''doc'' [] =
     Some (Ok (), ([PyObj 11 (Inr True) True], [Invoked (PyObj 11 (Inr True) True) ''doc'']))
 \<and> fire (call_outcome quiet) prints
      (on_load (snd (for_members [(''Watcher'', TypeObject new_listener)] bare_world))) ''doc'' [] =
     Some (Ok (), ([], []))"
proof -
  have a: "sub_EventListener new_listener" by (simp add: new_listener_def)
  have b: "construct new_listener = Inr [(''on_new'', Holds (PyObj 11 (Inr True) True))]"
    by (simp add: new_listener_def)
  have g: "getattr [(''on_new'', Holds (PyObj 11 (Inr True) True))] ''on_load'' = Ok None"
    "getattr [(''on_new'', Holds (PyObj 11 (Inr True) True))] ''on_new'' =
     Ok (Some (PyObj 11 (Inr True) True))"
    "truthy (PyObj 11 (Inr True) True)"
    by (simp_all add: getattr_def truthy_def)
  have u: "undisturbed (call_outcome quiet) prints ''doc''
             (on_new bare_world @ [PyObj 11 (Inr True) True])"
    by (simp add: undisturbed_def call_outcome_def quiet_def bare_world_def)
  have e: "on_new bare_world = []" "on_load bare_world = []" by (simp_all add: bare_world_def)
  have d: "delivery (call_outcome quiet) ''doc'' obs (PyObj 11 (Inr True) True) =
           [Invoked (PyObj 11 (Inr True) True) ''doc'']" for obs
    by (simp add: delivery_def call_outcome_def quiet_def)
  have empty: "fire (call_outcome quiet) prints [] ''doc'' [] = Some (Ok (), ([], []))"
    by (simp add: fire_def fire_from.simps)
  from listener_hooks_wired_by_truth_value [OF a b, where h = "PyObj 11 (Inr True) True"
      and beh = "call_outcome quiet" and report = prints and x = "''doc''" and s = bare_world
      and name = "''Watcher''"] g u
  have "on_load (snd (for_members [(''Watcher'', TypeObject new_listener)] bare_world)) = []
      \<and> on_new (snd (for_members [(''Watcher'', TypeObject new_listener)] bare_world)) =
          [PyObj 11 (Inr True) True]
      \<and> fire (call_outcome quiet) prints
          (on_new (snd (for_members [(''Watcher'', TypeObject new_listener)] bare_world)))
          ''doc'' [] =
         Some (Ok (), ([PyObj 11 (Inr True) True], [Invoked (PyObj 11 (Inr True) True) ''doc'']))
      \<and> fire (call_outcome quiet) prints
          (on_load (snd (for_members [(''Watcher'', TypeObject new_listener)] bare_world)))
          ''doc'' [] =
         Some (Ok (), ([], []))"
    by (auto simp: e d empty hooked_def add_raises_def getattr_def truthy_def
        simp del: for_members.simps)
  with a b g u show ?thesis by blast
qed

text \<open>
  C8 as stated fails: an attribute that is true and not callable is appended to its
  channel, and a callable attribute that is false is not.
\<close>

theorem truthy_attribute_wired_counterexample:
  "construct odd_listener =
     Inr [(''on_load'', Holds (PyObj 12 (Inr True) False)),
          (''on_new'', Holds (PyObj 13 (Inr False) True))]
 \<and> \<not> callable (PyObj 12 (Inr True) False) \<and> callable (PyObj 13 (Inr False) True)
 \<and> on_load (snd (reload_plugin import_module ''oddhooks'' oddhooks_world)) =
     [PyObj 12 (Inr True) False]
 \<and> on_new (snd (reload_plugin import_module ''oddhooks'' oddhooks_world)) = []"
  by (simp add: reload_plugin_def print_line_def try_except_def import_module_def
      import_submodule_def find_module_def fn_def
      dotted_path_map path_join_def startswith_def endswith_def path_exists_def
      load_module_def load_source_def oddhooks_world_def bare_world_def odd_listener_def
      register_member_def wire_listener_def add_def getattr_def iadd_def Let_def)

end
